theory Spec2Isabelle
  imports Main "HOL-Library.Sublist" "HOL-Library.Product_Lexorder"
begin

section \<open>Python strings\<close>

text \<open>
  A Python \<open>str\<close> is a sequence of Unicode code points; it is modelled as a list of
  natural numbers, so that \<open>length\<close> is Python's \<open>len\<close>. ASCII literals of the
  source are written \<open>ascii ''...''\<close>; other literals are given by their code points.
  \<open>a in b\<close> is \<open>sublist a b\<close>, \<open>b.startswith(a)\<close> is \<open>prefix a b\<close> and
  \<open>b.endswith(a)\<close> is \<open>suffix a b\<close>.
\<close>

type_synonym pystr = "nat list"

definition ascii :: "string \<Rightarrow> pystr" where
  "ascii s = map of_char s"

text \<open>
  \<open>str.isspace\<close> of one character, which is also the class \<open>\s\<close> of \<open>re\<close> on
  \<open>str\<close> patterns: the 29 code points of CPython 3.
\<close>

definition is_space :: "nat \<Rightarrow> bool" where
  "is_space c \<longleftrightarrow>
     (0x09 \<le> c \<and> c \<le> 0x0D) \<or> (0x1C \<le> c \<and> c \<le> 0x20) \<or> c = 0x85 \<or> c = 0xA0 \<or>
     c = 0x1680 \<or> (0x2000 \<le> c \<and> c \<le> 0x200A) \<or> c = 0x2028 \<or> c = 0x2029 \<or>
     c = 0x202F \<or> c = 0x205F \<or> c = 0x3000"

definition py_strip :: "pystr \<Rightarrow> pystr" where
  "py_strip s = rev (dropWhile is_space (rev (dropWhile is_space s)))"

text \<open>
  \<open>str.lower\<close> and \<open>str.upper\<close> are modelled on the ASCII letters; every other code
  point is left as it is.
\<close>

definition lower_char :: "nat \<Rightarrow> nat" where
  "lower_char c = (if 0x41 \<le> c \<and> c \<le> 0x5A then c + 0x20 else c)"

definition upper_char :: "nat \<Rightarrow> nat" where
  "upper_char c = (if 0x61 \<le> c \<and> c \<le> 0x7A then c - 0x20 else c)"

definition py_lower :: "pystr \<Rightarrow> pystr" where
  "py_lower s = map lower_char s"

definition py_upper :: "pystr \<Rightarrow> pystr" where
  "py_upper s = map upper_char s"

text \<open>\<open>str(n)\<close> of a non-negative integer: its decimal digits.\<close>

fun py_str_nat :: "nat \<Rightarrow> pystr" where
  "py_str_nat n = (if n < 10 then [0x30 + n] else py_str_nat (n div 10) @ [0x30 + n mod 10])"

declare py_str_nat.simps [simp del]

text \<open>The exceptions of the source, without their messages.\<close>

datatype py_error = ValueError | SearchError | LLMError | OtherError

section \<open>Specifications (spec.py)\<close>

text \<open>JSON-like values, for the loosely typed dictionaries of the source. A \<open>dict\<close> is an
  association list in insertion order with distinct keys.\<close>

datatype json =
    JNull
  | JBool bool
  | JInt int
  | JStr pystr
  | JList "json list"
  | JDict "(pystr \<times> json) list"

text \<open>The dataclasses of data_structures.py; the fields of \<open>PersonaProfile\<close> carry the
  prefix \<open>pp_\<close> and those of \<open>ContextBundle\<close> the prefix \<open>cb_\<close>.\<close>

record PersonaProfile =
  pp_identifier :: pystr
  pp_name :: pystr
  pp_seniority :: pystr
  pp_description :: pystr
  pp_motivations :: "pystr list"
  pp_pain_points :: "pystr list"

record ContextBundle =
  cb_persona :: PersonaProfile
  cb_user_statement :: pystr
  cb_constraints :: "pystr list"
  cb_available_assets :: "pystr list"
  cb_success_metrics :: "pystr list"

text \<open>
  The dataclass \<open>QuerySpec\<close>. \<open>notes\<close>, \<open>industry\<close> and \<open>profession\<close> are
  \<open>Optional[str]\<close>; \<open>orientation\<close> is declared \<open>str\<close> but read through
  \<open>self.orientation or "positive"\<close>, so \<open>None\<close> is a value of the model too.
  \<open>search_query\<close> is an init-only pseudo-field and not stored; \<open>search_queries\<close> is the
  stored list, set by \<open>__post_init__\<close>. The fields carry the prefix \<open>spec_\<close>.
\<close>

record QuerySpec =
  spec_query_id :: pystr
  spec_level :: pystr
  spec_scenario :: pystr
  spec_language :: pystr
  spec_task_focus :: "pystr list"
  spec_deliverable_requirements :: "pystr list"
  spec_evaluation_focus :: "pystr list"
  spec_notes :: "pystr option"
  spec_orientation :: "pystr option"
  spec_industry :: "pystr option"
  spec_profession :: "pystr option"
  spec_context_bundle :: "ContextBundle option"
  spec_task_metadata :: "(pystr \<times> json) list"
  spec_context_documents :: "json list"
  spec_search_queries :: "pystr list"

definition normalized_level :: "QuerySpec \<Rightarrow> py_error + pystr" where
  "normalized_level spec =
     (let upper = py_upper (spec_level spec)
      in if upper \<notin> {ascii ''L3'', ascii ''L4'', ascii ''L5''} then Inl ValueError
         else Inr upper)"

text \<open>\<open>(self.orientation or "positive").strip().lower()\<close>, then the membership test.\<close>

definition normalized_orientation :: "QuerySpec \<Rightarrow> py_error + pystr" where
  "normalized_orientation spec =
     (let v = py_lower (py_strip
                (case spec_orientation spec of
                   None \<Rightarrow> ascii ''positive''
                 | Some s \<Rightarrow> if s = [] then ascii ''positive'' else s))
      in if v \<notin> {ascii ''positive'', ascii ''inverse''} then Inl ValueError
         else Inr v)"

subsection \<open>Search-query normalisation\<close>

text \<open>
  The argument of \<open>normalize_search_queries\<close> is \<open>None\<close>, a string or a sequence whose
  items are \<open>None\<close> or strings (the declared type; items of another type are not modelled).
\<close>

datatype raw_query = RawNone | RawStr pystr | RawSeq "pystr option list"

text \<open>The character class of \<open>splitter\<close>: semicolon, comma, and their full-width forms
  U+FF0C and U+FF1B.\<close>

definition is_splitter_char :: "nat \<Rightarrow> bool" where
  "is_splitter_char c \<longleftrightarrow> c = 0x3B \<or> c = 0x2C \<or> c = 0xFF0C \<or> c = 0xFF1B"

text \<open>
  \<open>splitter.split(s)\<close>, where \<open>splitter\<close> matches one or more separator characters: the
  pieces between the maximal runs of separators, with an empty piece before a leading and
  after a trailing run.
\<close>

function splitter_split :: "pystr \<Rightarrow> pystr list" where
  "splitter_split [] = [[]]"
| "splitter_split (c # cs) =
     (if is_splitter_char c then [] # splitter_split (dropWhile is_splitter_char cs)
      else (case splitter_split cs of
              [] \<Rightarrow> [[c]]
            | p # ps \<Rightarrow> (c # p) # ps))"
  by pat_completeness auto
termination
  by (relation "measure length") (auto simp: le_imp_less_Suc length_dropWhile_le)

text \<open>The local function \<open>_push\<close>, with the list \<open>queries\<close> passed explicitly.\<close>

definition push :: "pystr list \<Rightarrow> pystr \<Rightarrow> pystr list" where
  "push queries v =
     (if v = [] then queries
      else let stripped = py_strip v
           in if stripped = [] then queries else queries @ [stripped])"

definition push_parts :: "pystr list \<Rightarrow> pystr \<Rightarrow> pystr list" where
  "push_parts queries s = foldl push queries (map py_strip (splitter_split s))"

text \<open>The final loop: the first occurrence of every query, in order.\<close>

fun dedup_queries :: "pystr set \<Rightarrow> pystr list \<Rightarrow> pystr list" where
  "dedup_queries seen [] = []"
| "dedup_queries seen (q # qs) =
     (if q \<notin> seen then q # dedup_queries (insert q seen) qs else dedup_queries seen qs)"

definition normalize_search_queries :: "raw_query \<Rightarrow> pystr list" where
  "normalize_search_queries raw =
     (case raw of
        RawNone \<Rightarrow> []
      | RawStr s \<Rightarrow> dedup_queries {} (push_parts [] s)
      | RawSeq items \<Rightarrow>
          dedup_queries {}
            (foldl (\<lambda>queries item. case item of None \<Rightarrow> queries | Some s \<Rightarrow> push_parts queries s)
               [] items))"

subsection \<open>Construction of a specification\<close>

definition set_search_queries :: "QuerySpec \<Rightarrow> raw_query \<Rightarrow> py_error + QuerySpec" where
  "set_search_queries spec v =
     (let normalized = normalize_search_queries v
      in if normalized = [] then Inl ValueError
         else Inr (spec\<lparr>spec_search_queries := normalized\<rparr>))"

text \<open>
  The generated \<open>__init__\<close>: it stores the init fields (here those of \<open>init_fields\<close>),
  sets \<open>search_queries\<close> from its default factory, and calls \<open>__post_init__\<close> with the
  init-only argument \<open>search_query\<close>.
\<close>

definition QuerySpec_init :: "QuerySpec \<Rightarrow> raw_query \<Rightarrow> py_error + QuerySpec" where
  "QuerySpec_init init_fields search_query =
     set_search_queries (init_fields\<lparr>spec_search_queries := []\<rparr>) search_query"

text \<open>The property \<open>search_query\<close>: the first query, or the empty string.\<close>

definition search_query :: "QuerySpec \<Rightarrow> pystr" where
  "search_query spec = (case spec_search_queries spec of [] \<Rightarrow> [] | q # _ \<Rightarrow> q)"

section \<open>Inverse specifications (inverse_utils.py)\<close>

text \<open>The default guidance hint \<open>INVERSE_NOTES_HINT\<close>, 137 code points.\<close>

definition INVERSE_NOTES_HINT :: pystr where
  "INVERSE_NOTES_HINT =
     [0x672C, 0x4EFB, 0x52A1, 0x4E3A, 0x8D1F, 0x5411, 0x4EFB, 0x52A1, 0xFF1A, 0x8BF7, 0x53C2,
      0x8003, 0x300A, 0x69, 0x6E, 0x76, 0x65, 0x72, 0x73, 0x65, 0x5F, 0x61, 0x67, 0x65, 0x6E,
      0x63, 0x79, 0x2E, 0x6D, 0x64, 0x300B, 0xFF0C, 0x6CBF, 0x7528, 0x5176, 0x4E2D, 0x603B,
      0x7ED3, 0x7684, 0x4E09, 0x7C7B, 0x9677, 0x9631, 0x8BBE, 0x8BA1, 0x601D, 0x8DEF, 0xFF08,
      0x8FDD, 0x53CD, 0x9886, 0x57DF, 0x6839, 0x5F8B, 0x3001, 0x5F15, 0x7528, 0x9519, 0x8BEF,
      0x2F, 0x4E0D, 0x53EF, 0x590D, 0x73B0, 0x6570, 0x636E, 0x3001, 0x8D44, 0x6E90, 0x6216,
      0x80FD, 0x529B, 0x6839, 0x672C, 0x4E0D, 0x53EF, 0x884C, 0xFF09, 0xFF0C, 0x91CD, 0x70B9,
      0x8003, 0x5BDF, 0x667A, 0x80FD, 0x4F53, 0x8BC6, 0x522B, 0x77DB, 0x76FE, 0x5E76, 0x63D0,
      0x4EA4, 0x8BC1, 0x4F2A, 0x8FC7, 0x7A0B, 0x7684, 0x80FD, 0x529B, 0x3002, 0x786E, 0x4FDD,
      0x6700, 0x7EC8, 0x76EE, 0x6807, 0x662F, 0x5F97, 0x51FA, 0x201C, 0x4EFB, 0x52A1, 0x4E0D,
      0x53EF, 0x5B8C, 0x6210, 0x6216, 0x524D, 0x63D0, 0x6709, 0x8BEF, 0x201D, 0x7684, 0x7ED3,
      0x8BBA, 0xFF0C, 0x800C, 0x975E, 0x7EE7, 0x7EED, 0x63A8, 0x8FDB, 0x539F, 0x9700, 0x6C42,
      0x3002]"

definition ensure_inverse_notes :: "pystr option \<Rightarrow> pystr \<Rightarrow> pystr" where
  "ensure_inverse_notes notes guidance_hint =
     (let text = py_strip (case notes of None \<Rightarrow> [] | Some n \<Rightarrow> n)
      in if sublist guidance_hint text then text
         else if text \<noteq> [] then py_strip (text @ [0x0A] @ guidance_hint)
         else guidance_hint)"

text \<open>
  \<open>dataclasses.replace(spec, query_id=..., orientation=..., notes=...)\<close>. The library
  function builds the keyword arguments of a new \<open>QuerySpec(...)\<close>: every init field
  that is not among the changes is read from the object with \<open>getattr\<close>, and a field with
  \<open>init=False\<close> (\<open>search_queries\<close>) is left out. The init-only field \<open>search_query\<close> has
  the class attribute of that name, the property, as its default, so it is not rejected as
  missing and \<open>getattr(spec, "search_query")\<close> reads the property: the first query.
  The new object then goes through \<open>__init__\<close> and \<open>__post_init__\<close>.
\<close>

definition replace_spec :: "QuerySpec \<Rightarrow> pystr \<Rightarrow> pystr \<Rightarrow> pystr \<Rightarrow> py_error + QuerySpec" where
  "replace_spec spec new_id new_orientation new_notes =
     QuerySpec_init
       (spec\<lparr>spec_query_id := new_id, spec_orientation := Some new_orientation,
             spec_notes := Some new_notes\<rparr>)
       (RawStr (search_query spec))"

text \<open>
  The loop \<open>while candidate in existing_ids\<close> of \<open>build_inverse_spec\<close>; \<open>None\<close> is a loop
  that does not end.
\<close>

partial_function (option) free_candidate :: "pystr \<Rightarrow> pystr set \<Rightarrow> nat \<Rightarrow> pystr \<Rightarrow> pystr option" where
  "free_candidate base_id existing_ids counter candidate =
     (if candidate \<in> existing_ids
      then free_candidate base_id existing_ids (counter + 1)
             (base_id @ ascii ''-'' @ py_str_nat (counter + 1))
      else Some candidate)"

declare free_candidate.simps [code]

text \<open>
  \<open>build_inverse_spec\<close> returns the clone together with the set \<open>existing_ids\<close> as the
  call leaves it (the source adds the chosen identifier to the caller's set).
\<close>

definition build_inverse_spec ::
  "QuerySpec \<Rightarrow> pystr set option \<Rightarrow> pystr \<Rightarrow> (py_error + QuerySpec \<times> pystr set option) option" where
  "build_inverse_spec spec existing_ids guidance_hint =
     (if normalized_orientation spec \<noteq> Inr (ascii ''positive'')
      then Some (Inl ValueError)
      else
        let base_id = spec_query_id spec @ ascii ''-inverse'';
            finish = (\<lambda>candidate ids.
              case replace_spec spec candidate (ascii ''inverse'')
                     (ensure_inverse_notes (spec_notes spec) guidance_hint) of
                Inl e \<Rightarrow> Inl e
              | Inr clone \<Rightarrow> Inr (clone, ids))
        in case existing_ids of
             None \<Rightarrow> Some (finish base_id None)
           | Some ids \<Rightarrow>
               (case free_candidate base_id ids 1 base_id of
                  None \<Rightarrow> None
                | Some candidate \<Rightarrow> Some (finish candidate (Some (insert candidate ids)))))"

section \<open>Regular expressions\<close>

text \<open>
  The fragment of \<open>re\<close> that the modelled functions use: character classes, concatenation,
  alternation, the empty pattern and the greedy repetition of a character class.
  \<open>x+\<close> is \<open>Cat (Atom x) (Star x)\<close> and \<open>r?\<close> is \<open>Alt r Eps\<close>. The flag
  \<open>ic\<close> is \<open>re.IGNORECASE\<close> for patterns whose letters are ASCII letters: such a
  letter matches its two cases and, for \<open>i\<close>, \<open>s\<close> and \<open>k\<close>, the code points
  U+0130 and U+0131, U+017F, and U+212A, which \<open>re\<close> folds to them.
\<close>

datatype cclass =
    CChar nat
  | CRange nat nat
  | CSpace
  | COr cclass cclass
  | CNot cclass

definition fold_char :: "nat \<Rightarrow> nat" where
  "fold_char c =
     (if c = 0x130 \<or> c = 0x131 then 0x69
      else if c = 0x17F then 0x73
      else if c = 0x212A then 0x6B
      else lower_char c)"

fun in_class :: "bool \<Rightarrow> cclass \<Rightarrow> nat \<Rightarrow> bool" where
  "in_class ic (CChar a) c = (if ic then fold_char c = fold_char a else c = a)"
| "in_class ic (CRange a b) c =
     ((a \<le> c \<and> c \<le> b) \<or>
      (ic \<and> ((a \<le> fold_char c \<and> fold_char c \<le> b)
             \<or> (a \<le> upper_char (fold_char c) \<and> upper_char (fold_char c) \<le> b))))"
| "in_class ic CSpace c = is_space c"
| "in_class ic (COr x y) c = (in_class ic x c \<or> in_class ic y c)"
| "in_class ic (CNot x) c = (\<not> in_class ic x c)"

datatype regex =
    Eps
  | Atom cclass
  | Cat regex regex
  | Alt regex regex
  | Star cclass

text \<open>A literal string as a pattern.\<close>

fun lit :: "pystr \<Rightarrow> regex" where
  "lit [] = Eps"
| "lit (c # cs) = Cat (Atom (CChar c)) (lit cs)"

text \<open>
  \<open>rmatch ic r s\<close> lists what is left of \<open>s\<close> after each way of matching \<open>r\<close> at its
  start, in the order in which the backtracking matcher of \<open>re\<close> tries them: the left
  alternative first, the longest repetition first.
\<close>

fun rmatch :: "bool \<Rightarrow> regex \<Rightarrow> pystr \<Rightarrow> pystr list" where
  "rmatch ic Eps s = [s]"
| "rmatch ic (Atom c) s = (case s of [] \<Rightarrow> [] | x # xs \<Rightarrow> if in_class ic c x then [xs] else [])"
| "rmatch ic (Cat r1 r2) s = concat (map (rmatch ic r2) (rmatch ic r1 s))"
| "rmatch ic (Alt r1 r2) s = rmatch ic r1 s @ rmatch ic r2 s"
| "rmatch ic (Star c) s =
     map (\<lambda>k. drop k s) (rev [0 ..< Suc (length (takeWhile (in_class ic c) s))])"

text \<open>The length of the match that \<open>re\<close> finds at the start of \<open>s\<close>, if there is one.\<close>

definition match_len :: "bool \<Rightarrow> regex \<Rightarrow> pystr \<Rightarrow> nat option" where
  "match_len ic r s = (case rmatch ic r s of [] \<Rightarrow> None | t # _ \<Rightarrow> Some (length s - length t))"

text \<open>
  \<open>re.sub(r, rep, s)\<close> and \<open>re.findall(r, s)\<close> (a pattern without groups) scan \<open>s\<close>
  from the left and take the match at the first position that has one, then go on behind
  it. The argument \<open>k\<close> counts the characters of a match still to be skipped. Every
  pattern of the source needs at least one character; an empty match is treated as no
  match.
\<close>

fun re_sub_from :: "bool \<Rightarrow> regex \<Rightarrow> pystr \<Rightarrow> nat \<Rightarrow> pystr \<Rightarrow> pystr" where
  "re_sub_from ic r rep k [] = []"
| "re_sub_from ic r rep (Suc k) (c # cs) = re_sub_from ic r rep k cs"
| "re_sub_from ic r rep 0 (c # cs) =
     (case match_len ic r (c # cs) of
        Some (Suc n) \<Rightarrow> rep @ re_sub_from ic r rep n cs
      | _ \<Rightarrow> c # re_sub_from ic r rep 0 cs)"

definition re_sub :: "bool \<Rightarrow> regex \<Rightarrow> pystr \<Rightarrow> pystr \<Rightarrow> pystr" where
  "re_sub ic r rep s = re_sub_from ic r rep 0 s"

fun re_findall_from :: "bool \<Rightarrow> regex \<Rightarrow> nat \<Rightarrow> pystr \<Rightarrow> pystr list" where
  "re_findall_from ic r k [] = []"
| "re_findall_from ic r (Suc k) (c # cs) = re_findall_from ic r k cs"
| "re_findall_from ic r 0 (c # cs) =
     (case match_len ic r (c # cs) of
        Some (Suc n) \<Rightarrow> take (Suc n) (c # cs) # re_findall_from ic r n cs
      | _ \<Rightarrow> re_findall_from ic r 0 cs)"

definition re_findall :: "bool \<Rightarrow> regex \<Rightarrow> pystr \<Rightarrow> pystr list" where
  "re_findall ic r s = re_findall_from ic r 0 s"

text \<open>\<open>re.search(r, s)\<close> finds a match: some suffix of \<open>s\<close> starts with one.\<close>

definition re_search :: "bool \<Rightarrow> regex \<Rightarrow> pystr \<Rightarrow> bool" where
  "re_search ic r s = list_ex (\<lambda>t. rmatch ic r t \<noteq> []) (suffixes s)"

section \<open>Search results and URLs\<close>

text \<open>The dataclass \<open>SearchResult\<close> of search.py (prefix \<open>sr_\<close>) and the dataclasses
  \<open>GroundTruthSource\<close> (prefix \<open>gs_\<close>) and \<open>GroundTruthBundle\<close> (prefix \<open>gb_\<close>).\<close>

record SearchResult =
  sr_title :: pystr
  sr_url :: pystr
  sr_snippet :: pystr
  sr_source :: "pystr option"
  sr_date :: "pystr option"
  sr_search_query :: "pystr option"

record GroundTruthSource =
  gs_title :: pystr
  gs_url :: pystr
  gs_snippet :: "pystr option"
  gs_source :: "pystr option"
  gs_date :: "pystr option"
  gs_search_query :: "pystr option"

record GroundTruthBundle =
  gb_primary :: GroundTruthSource
  gb_supporting :: "GroundTruthSource list"

definition from_search_result :: "SearchResult \<Rightarrow> GroundTruthSource" where
  "from_search_result result =
     \<lparr>gs_title = sr_title result, gs_url = sr_url result, gs_snippet = Some (sr_snippet result),
      gs_source = sr_source result, gs_date = sr_date result,
      gs_search_query = sr_search_query result\<rparr>"

subsection \<open>urllib.parse.urlparse\<close>

text \<open>
  The three components of \<open>urlparse(url)\<close> that the source reads. The model follows
  \<open>urlsplit\<close> of CPython 3.11: leading C0 control characters and spaces are stripped, tab,
  carriage return and line feed are removed, the scheme is what stands before the first
  colon if it starts with an ASCII letter and consists of scheme characters, the netloc
  follows \<open>//\<close> up to the first of \<open>/ ? #\<close>, then fragment and query are cut off,
  and for a scheme that uses parameters they are cut off the last path segment.
  A netloc with one kind of square bracket but not the other raises \<open>ValueError\<close>.
  The two further checks of the library, which raise \<open>ValueError\<close> on an invalid
  bracketed host and on a non-ASCII netloc that NFKC normalisation turns into one with a
  delimiter, are not modelled.
\<close>

record ParseResult =
  pr_scheme :: pystr
  pr_netloc :: pystr
  pr_path :: pystr

definition is_ascii_alpha :: "nat \<Rightarrow> bool" where
  "is_ascii_alpha c \<longleftrightarrow> (0x41 \<le> c \<and> c \<le> 0x5A) \<or> (0x61 \<le> c \<and> c \<le> 0x7A)"

definition is_scheme_char :: "nat \<Rightarrow> bool" where
  "is_scheme_char c \<longleftrightarrow>
     is_ascii_alpha c \<or> (0x30 \<le> c \<and> c \<le> 0x39) \<or> c = 0x2B \<or> c = 0x2D \<or> c = 0x2E"

text \<open>\<open>s.split(c, 1)\<close> when \<open>c\<close> occurs in \<open>s\<close>, and \<open>(s, None)\<close> otherwise.\<close>

definition split_first :: "nat \<Rightarrow> pystr \<Rightarrow> pystr \<times> pystr option" where
  "split_first c s =
     (takeWhile (\<lambda>x. x \<noteq> c) s,
      case dropWhile (\<lambda>x. x \<noteq> c) s of [] \<Rightarrow> None | _ # rest \<Rightarrow> Some rest)"

definition uses_params :: "pystr list" where
  "uses_params =
     [[], ascii ''ftp'', ascii ''hdl'', ascii ''prospero'', ascii ''http'', ascii ''imap'',
      ascii ''https'', ascii ''shttp'', ascii ''rtsp'', ascii ''rtsps'', ascii ''rtspu'',
      ascii ''sip'', ascii ''sips'', ascii ''mms'', ascii ''sftp'', ascii ''tel'']"

text \<open>\<open>_splitparams(url)[0]\<close>: the path up to the first semicolon of its last segment.\<close>

definition splitparams_path :: "pystr \<Rightarrow> pystr" where
  "splitparams_path url =
     (if 0x2F \<in> set url
      then (let tail = rev (takeWhile (\<lambda>x. x \<noteq> 0x2F) (rev url));
                front = take (length url - length tail) url
            in front @ takeWhile (\<lambda>x. x \<noteq> 0x3B) tail)
      else takeWhile (\<lambda>x. x \<noteq> 0x3B) url)"

definition urlparse :: "pystr \<Rightarrow> py_error + ParseResult" where
  "urlparse url0 =
     (let url1 = filter (\<lambda>c. c \<noteq> 0x09 \<and> c \<noteq> 0x0D \<and> c \<noteq> 0x0A) (dropWhile (\<lambda>c. c \<le> 0x20) url0);
          (scheme, url2) =
             (case split_first 0x3A url1 of
                (pre, Some post) \<Rightarrow>
                  if pre \<noteq> [] \<and> is_ascii_alpha (hd pre) \<and> list_all is_scheme_char pre
                  then (py_lower pre, post) else ([], url1)
              | (pre, None) \<Rightarrow> ([], url1));
          is_delim = (\<lambda>c. c = 0x2F \<or> c = 0x3F \<or> c = 0x23);
          (netloc, url3) =
             (if take 2 url2 = ascii ''//''
              then (takeWhile (\<lambda>c. \<not> is_delim c) (drop 2 url2),
                    dropWhile (\<lambda>c. \<not> is_delim c) (drop 2 url2))
              else ([], url2))
      in if (0x5B \<in> set netloc) \<noteq> (0x5D \<in> set netloc) then Inl ValueError
         else
           let url4 = fst (split_first 0x23 url3);
               url5 = fst (split_first 0x3F url4);
               path = (if scheme \<in> set uses_params \<and> 0x3B \<in> set url5
                       then splitparams_path url5 else url5)
           in Inr \<lparr>pr_scheme = scheme, pr_netloc = netloc, pr_path = path\<rparr>)"

section \<open>Ground-truth selection (ground\_truth.py)\<close>

definition SKIP_EXT :: "pystr list" where
  "SKIP_EXT =
     [ascii ''.ico'', ascii ''.png'', ascii ''.jpg'', ascii ''.jpeg'', ascii ''.gif'',
      ascii ''.svg'', ascii ''.webp'', ascii ''.css'', ascii ''.js'', ascii ''.ttf'',
      ascii ''.woff'', ascii ''.woff2'']"

definition SKIP_DOMAINS :: "pystr list" where
  "SKIP_DOMAINS =
     [ascii ''duckduckgo.com'', ascii ''r.jina.ai'', ascii ''apps.apple.com'',
      ascii ''itunes.apple.com'']"

definition is_viable_ground_truth :: "pystr \<Rightarrow> py_error + bool" where
  "is_viable_ground_truth url =
     (if url = [] then Inr False
      else case urlparse url of
        Inl e \<Rightarrow> Inl e
      | Inr parsed \<Rightarrow>
          Inr (if pr_scheme parsed = ascii ''file'' then True
               else if \<not> prefix (ascii ''http'') (pr_scheme parsed) then False
               else let host = py_lower (pr_netloc parsed)
                    in if list_ex (\<lambda>banned. host = banned \<or> suffix (ascii ''.'' @ banned) host)
                            SKIP_DOMAINS
                       then False
                       else if list_ex (\<lambda>ext. suffix ext (py_lower (pr_path parsed))) SKIP_EXT
                       then False
                       else True))"

text \<open>
  The reachability probe of \<open>_is_downloadable\<close> is a network request; \<open>probe url\<close> says
  that the request for \<open>url\<close> answers with status 200 and raises no request exception.
\<close>

definition is_downloadable :: "(pystr \<Rightarrow> bool) \<Rightarrow> pystr \<Rightarrow> bool" where
  "is_downloadable probe url = (is_viable_ground_truth url = Inr True \<and> probe url)"

text \<open>The pattern \<open>([a-zA-Z0-9.-]+\.[a-z]{2,})\<close> of \<open>_extract_domains\<close>.\<close>

definition DOMAIN_RE :: regex where
  "DOMAIN_RE =
     (let label = COr (CRange 0x61 0x7A) (COr (CRange 0x41 0x5A) (COr (CRange 0x30 0x39)
                    (COr (CChar 0x2E) (CChar 0x2D))));
          az = CRange 0x61 0x7A
      in Cat (Atom label) (Cat (Star label)
           (Cat (Atom (CChar 0x2E)) (Cat (Atom az) (Cat (Atom az) (Star az))))))"

definition extract_domains :: "pystr \<Rightarrow> pystr list" where
  "extract_domains snippet =
     (if snippet = [] then []
      else take 3
        (foldl (\<lambda>domains m.
                  let domain = py_lower m
                  in if list_ex (\<lambda>banned. suffix banned domain) SKIP_DOMAINS then domains
                     else if domain \<notin> set domains then domains @ [domain]
                     else domains)
           [] (re_findall False DOMAIN_RE snippet)))"

text \<open>The local function \<open>_primary_score\<close>; tuples are compared lexicographically.\<close>

definition primary_score :: "pystr \<Rightarrow> nat \<times> nat" where
  "primary_score url =
     (if url = [] then (99, 99)
      else let u = py_lower url
           in if suffix (ascii ''.pdf'') u \<or> sublist (ascii ''/pdf'') u then (0, length u)
              else if sublist (ascii ''github.com'') u \<or> sublist (ascii ''gitlab.com'') u
                      \<or> sublist (ascii ''bitbucket.org'') u then (1, length u)
              else if sublist (ascii ''huggingface.co'') u then (2, length u)
              else (5, length u))"

text \<open>
  A list comprehension \<open>[x for x in xs if _is_viable_ground_truth(url(x))]\<close>: the first
  exception of the test ends it.
\<close>

fun filter_viable :: "('a \<Rightarrow> pystr) \<Rightarrow> 'a list \<Rightarrow> py_error + 'a list" where
  "filter_viable url [] = Inr []"
| "filter_viable url (x # xs) =
     (case is_viable_ground_truth (url x) of
        Inl e \<Rightarrow> Inl e
      | Inr b \<Rightarrow>
          (case filter_viable url xs of
             Inl e \<Rightarrow> Inl e
           | Inr ys \<Rightarrow> Inr (if b then x # ys else ys)))"

text \<open>
  One call of the search backend (\<open>serper_search\<close>): its arguments. The backend is a
  network service; it is a parameter \<open>serper\<close> of the model whose answer may depend on
  the number of calls made before, and is a list of results or an exception.
\<close>

record search_call =
  sc_query :: pystr
  sc_endpoint :: pystr
  sc_market :: pystr
  sc_language :: pystr
  sc_num :: int

type_synonym backend = "nat \<Rightarrow> search_call \<Rightarrow> py_error + SearchResult list"

text \<open>\<open>xs[:n]\<close> for an integer \<open>n\<close>.\<close>

definition py_slice_to :: "int \<Rightarrow> 'a list \<Rightarrow> 'a list" where
  "py_slice_to n xs = (if 0 \<le> n then take (nat n) xs else take (length xs - nat (- n)) xs)"

text \<open>
  The domain-refinement loops: for every domain found in the snippets, in order, search
  \<open>site:domain query\<close>; a \<open>SearchError\<close> moves on to the next domain, the first answer
  with a viable hit ends the loops. \<open>k\<close> counts the calls of the backend.
\<close>

fun refine_loop ::
  "backend \<Rightarrow> (pystr \<Rightarrow> search_call) \<Rightarrow> nat \<Rightarrow> pystr list \<Rightarrow> py_error + SearchResult list option" where
  "refine_loop serper mk k [] = Inr None"
| "refine_loop serper mk k (domain # domains) =
     (case serper k (mk domain) of
        Inl e \<Rightarrow> if e = SearchError then refine_loop serper mk (Suc k) domains else Inl e
      | Inr refined \<Rightarrow>
          (case filter_viable sr_url refined of
             Inl e \<Rightarrow> Inl e
           | Inr refined_viable \<Rightarrow>
               if refined_viable \<noteq> [] then Inr (Some refined_viable)
               else refine_loop serper mk (Suc k) domains))"

text \<open>
  The final loop over \<open>results\<close>. The test \<open>res is primary\<close> compares objects; the entries
  of \<open>results\<close> are taken to be distinct objects, so the primary is known by its position
  \<open>pidx\<close>. The viability test cannot raise here: it has been evaluated for every entry
  before.
\<close>

fun collect_supporting ::
  "int \<Rightarrow> nat \<Rightarrow> (nat \<times> SearchResult) list \<Rightarrow> GroundTruthSource list \<Rightarrow> GroundTruthSource list" where
  "collect_supporting max_supporting pidx [] supporting = supporting"
| "collect_supporting max_supporting pidx ((i, res) # rest) supporting =
     (if i = pidx then collect_supporting max_supporting pidx rest supporting
      else if is_viable_ground_truth (sr_url res) \<noteq> Inr True
      then collect_supporting max_supporting pidx rest supporting
      else let supporting' = supporting @ [from_search_result res]
           in if max_supporting \<le> int (length supporting') then supporting'
              else collect_supporting max_supporting pidx rest supporting')"

definition select_ground_truth_bundle ::
  "(pystr \<Rightarrow> bool) \<Rightarrow> backend \<Rightarrow> QuerySpec \<Rightarrow> SearchResult list \<Rightarrow> pystr \<Rightarrow> pystr \<Rightarrow> pystr \<Rightarrow> int
     \<Rightarrow> py_error + GroundTruthBundle" where
  "select_ground_truth_bundle probe serper spec results serper_endpoint market language max_supporting =
     (if results = [] then Inl SearchError
      else case filter_viable (sr_url \<circ> snd) (enumerate 0 results) of
        Inl e \<Rightarrow> Inl e
      | Inr viable \<Rightarrow>
          let viable_sorted = sort_key (\<lambda>(i, r). primary_score (sr_url r)) viable;
              downloadable = filter (\<lambda>(i, r). is_downloadable probe (sr_url r)) viable_sorted;
              ordered = (if downloadable \<noteq> [] then downloadable else viable_sorted);
              finish = (\<lambda>pidx.
                \<lparr>gb_primary = from_search_result (results ! pidx),
                 gb_supporting = collect_supporting max_supporting pidx (enumerate 0 results) []\<rparr>)
          in case ordered of
               (pidx, primary) # _ \<Rightarrow> Inr (finish pidx)
             | [] \<Rightarrow>
                 (case refine_loop serper
                         (\<lambda>domain. \<lparr>sc_query = ascii ''site:'' @ domain @ ascii '' '' @ search_query spec,
                                     sc_endpoint = serper_endpoint, sc_market = market,
                                     sc_language = language, sc_num = 5\<rparr>)
                         0 (concat (map (\<lambda>res. extract_domains (sr_snippet res)) results)) of
                    Inl e \<Rightarrow> Inl e
                  | Inr (Some refined_viable) \<Rightarrow>
                      Inr \<lparr>gb_primary = from_search_result (hd refined_viable),
                           gb_supporting =
                             map from_search_result (py_slice_to max_supporting (tl refined_viable))\<rparr>
                  | Inr None \<Rightarrow> Inr (finish 0)))"

section \<open>Evidence search (agent.py, run\_search)\<close>


text \<open>The fields of the agent that the search reads (prefix \<open>agent_\<close>).\<close>

record QueryConstructionAgent =
  agent_serper_endpoint :: pystr
  agent_market :: pystr




text \<open>
  The trace of a search: the calls of the backend made so far, each with its answer. The
  call number \<open>k0 + length trace\<close> is the number of calls made before.
\<close>

type_synonym trace = "(search_call \<times> (py_error + SearchResult list)) list"







section \<open>Batch generation (agent.py, generate\_batch)\<close>

text \<open>
  A payload is a \<open>dict\<close>. \<open>dict_get\<close> is \<open>d.get(k)\<close> and \<open>dict_set\<close> is
  \<open>d[k] = v\<close>: an existing key keeps its place, a new key goes to the end.
\<close>

type_synonym pydict = "(pystr \<times> json) list"

definition dict_get :: "pydict \<Rightarrow> pystr \<Rightarrow> json option" where
  "dict_get d k = map_of d k"

fun dict_set :: "pydict \<Rightarrow> pystr \<Rightarrow> json \<Rightarrow> pydict" where
  "dict_set [] k v = [(k, v)]"
| "dict_set ((k', v') # d) k v = (if k' = k then (k, v) # d else (k', v') # dict_set d k v)"

text \<open>
  The key of the search cache, and the state that the units of work of one batch share:
  the cache, and two records kept for the statements only: the invocations of
  \<open>agent.run_search\<close> so far, each with its cache key and whether it returned, and the
  numbers of calls of \<open>agent.build_query\<close> and \<open>save_query_package\<close> so far.
\<close>

type_synonym cache_key = "pystr list \<times> pystr \<times> pystr \<times> pystr"

definition cache_key_of :: "QueryConstructionAgent \<Rightarrow> QuerySpec \<Rightarrow> cache_key" where
  "cache_key_of agent spec =
     (spec_search_queries spec, py_lower (spec_language spec), agent_market agent,
      agent_serper_endpoint agent)"

record batch_state =
  bs_cache :: "cache_key \<rightharpoonup> SearchResult list"
  bs_searches :: "(cache_key \<times> bool) list"
  bs_builds :: nat
  bs_packages :: nat

definition initial_state :: batch_state where
  "initial_state = \<lparr>bs_cache = Map.empty, bs_searches = [], bs_builds = 0, bs_packages = 0\<rparr>"

text \<open>
  The three services that a unit of work calls are parameters of the model, each an
  oracle indexed by the number of its earlier calls: \<open>search\<close> is \<open>agent.run_search\<close>,
  \<open>build\<close> is \<open>agent.build_query\<close> with the given search results, and \<open>package\<close> is
  \<open>save_query_package\<close>, which returns the resolved package path. Each returns a value or
  raises.
\<close>

type_synonym search_service = "nat \<Rightarrow> QuerySpec \<Rightarrow> py_error + SearchResult list"
type_synonym build_service = "nat \<Rightarrow> QuerySpec \<Rightarrow> SearchResult list \<Rightarrow> py_error + pydict"
type_synonym package_service = "nat \<Rightarrow> pydict \<Rightarrow> pystr \<Rightarrow> py_error + pystr"

text \<open>
  The first part of \<open>_process_spec\<close>: read the cache under the lock; on a miss run the
  search outside the lock and store its result under the lock. A \<open>SearchError\<close> returns
  \<open>None\<close> from the unit of work and stores nothing.
\<close>

definition cached_search ::
  "search_service \<Rightarrow> QueryConstructionAgent \<Rightarrow> QuerySpec \<Rightarrow> batch_state
     \<Rightarrow> (py_error + SearchResult list option) \<times> batch_state" where
  "cached_search search agent spec st =
     (let cache_key = cache_key_of agent spec
      in case bs_cache st cache_key of
           Some search_results \<Rightarrow> (Inr (Some search_results), st)
         | None \<Rightarrow>
             (case search (length (bs_searches st)) spec of
                Inl e \<Rightarrow>
                  (if e = SearchError then Inr None else Inl e,
                   st\<lparr>bs_searches := bs_searches st @ [(cache_key, False)]\<rparr>)
              | Inr search_results \<Rightarrow>
                  (Inr (Some search_results),
                   st\<lparr>bs_cache := (bs_cache st)(cache_key \<mapsto> search_results),
                      bs_searches := bs_searches st @ [(cache_key, True)]\<rparr>)))"

text \<open>The loop \<open>for attempt in range(3)\<close> around \<open>agent.build_query\<close>: a
  \<open>SearchError\<close> or \<open>LLMError\<close> is caught and the next attempt made.\<close>

fun build_attempts ::
  "build_service \<Rightarrow> QuerySpec \<Rightarrow> SearchResult list \<Rightarrow> batch_state \<Rightarrow> nat list
     \<Rightarrow> (py_error + pydict option) \<times> batch_state" where
  "build_attempts build spec search_results st [] = (Inr None, st)"
| "build_attempts build spec search_results st (attempt # rest) =
     (let st' = st\<lparr>bs_builds := Suc (bs_builds st)\<rparr>
      in case build (bs_builds st) spec search_results of
           Inr payload \<Rightarrow> (Inr (Some payload), st')
         | Inl e \<Rightarrow>
             if e = SearchError \<or> e = LLMError
             then build_attempts build spec search_results st' rest
             else (Inl e, st'))"

text \<open>
  \<open>_process_spec\<close>: the payload, \<open>None\<close> for a dropped item, or the exception that
  leaves it. \<open>package_dir\<close> is the optional package directory.
\<close>

definition process_spec ::
  "search_service \<Rightarrow> build_service \<Rightarrow> package_service \<Rightarrow> pystr option \<Rightarrow> QueryConstructionAgent
     \<Rightarrow> QuerySpec \<Rightarrow> batch_state \<Rightarrow> (py_error + pydict option) \<times> batch_state" where
  "process_spec search build package package_dir agent spec st =
     (case cached_search search agent spec st of
        (Inl e, st1) \<Rightarrow> (Inl e, st1)
      | (Inr None, st1) \<Rightarrow> (Inr None, st1)
      | (Inr (Some search_results), st1) \<Rightarrow>
          (case build_attempts build spec search_results st1 [0, 1, 2] of
             (Inl e, st2) \<Rightarrow> (Inl e, st2)
           | (Inr None, st2) \<Rightarrow> (Inr None, st2)
           | (Inr (Some payload), st2) \<Rightarrow>
               (case package_dir of
                  None \<Rightarrow> (Inr (Some payload), st2)
                | Some dir \<Rightarrow>
                    (let st3 = st2\<lparr>bs_packages := Suc (bs_packages st2)\<rparr>
                     in case package (bs_packages st2) payload dir of
                          Inl e \<Rightarrow> (Inl e, st3)
                        | Inr pkg_path \<Rightarrow>
                            (Inr (Some (dict_set payload (ascii ''_package_dir'') (JStr pkg_path))),
                             st3)))))"

text \<open>
  The sequential branch of \<open>generate_batch\<close>: the loop calls \<open>_process_spec\<close> with no
  exception handler, and appends a payload that is not empty.
\<close>

fun batch_sequential ::
  "search_service \<Rightarrow> build_service \<Rightarrow> package_service \<Rightarrow> pystr option \<Rightarrow> QueryConstructionAgent
     \<Rightarrow> QuerySpec list \<Rightarrow> batch_state \<Rightarrow> pydict list \<Rightarrow> (py_error + pydict list) \<times> batch_state" where
  "batch_sequential search build package package_dir agent [] st outputs = (Inr outputs, st)"
| "batch_sequential search build package package_dir agent (spec # specs) st outputs =
     (case process_spec search build package package_dir agent spec st of
        (Inl e, st') \<Rightarrow> (Inl e, st')
      | (Inr payload, st') \<Rightarrow>
          batch_sequential search build package package_dir agent specs st'
            (case payload of
               None \<Rightarrow> outputs
             | Some p \<Rightarrow> if p \<noteq> [] then outputs @ [p] else outputs))"

text \<open>
  The worker bound. \<open>QUERY_AGENT_MAX_WORKERS\<close> is unset or empty, not an integer, or
  an integer.
\<close>

datatype env_int = Unset | Invalid | Parsed int

definition resolve_workers :: "int option \<Rightarrow> env_int \<Rightarrow> int" where
  "resolve_workers max_workers env_workers =
     (let resolved = (case max_workers of
                        Some n \<Rightarrow> Some n
                      | None \<Rightarrow> (case env_workers of Parsed n \<Rightarrow> Some n | _ \<Rightarrow> None))
      in max 1 (case resolved of None \<Rightarrow> 1 | Some n \<Rightarrow> n))"

subsection \<open>The worker pool\<close>

text \<open>
  In the parallel branch every specification is a task of a thread pool, and the tasks
  run \<open>_process_spec\<close> concurrently. A task is modelled by its position in
  \<open>_process_spec\<close>; a step of a task is what it does between two points at which
  another thread can run and observe the shared state: the cache read (under the lock),
  the search (outside the lock), the cache write (under the lock), one call of
  \<open>build_query\<close>, the packaging.
\<close>

datatype task =
    Queued
  | Missed
  | Searched "SearchResult list"
  | Building "SearchResult list" nat
  | Packaging pydict pystr
  | Finished "py_error + pydict option"

fun task_step ::
  "search_service \<Rightarrow> build_service \<Rightarrow> package_service \<Rightarrow> pystr option \<Rightarrow> QueryConstructionAgent
     \<Rightarrow> QuerySpec \<Rightarrow> task \<Rightarrow> batch_state \<Rightarrow> task \<times> batch_state" where
  "task_step search build package package_dir agent spec Queued st =
     (case bs_cache st (cache_key_of agent spec) of
        Some search_results \<Rightarrow> (Building search_results 0, st)
      | None \<Rightarrow> (Missed, st))"
| "task_step search build package package_dir agent spec Missed st =
     (case search (length (bs_searches st)) spec of
        Inl e \<Rightarrow>
          (Finished (if e = SearchError then Inr None else Inl e),
           st\<lparr>bs_searches := bs_searches st @ [(cache_key_of agent spec, False)]\<rparr>)
      | Inr search_results \<Rightarrow>
          (Searched search_results,
           st\<lparr>bs_searches := bs_searches st @ [(cache_key_of agent spec, True)]\<rparr>))"
| "task_step search build package package_dir agent spec (Searched search_results) st =
     (Building search_results 0,
      st\<lparr>bs_cache := (bs_cache st)(cache_key_of agent spec \<mapsto> search_results)\<rparr>)"
| "task_step search build package package_dir agent spec (Building search_results attempt) st =
     (if 3 \<le> attempt then (Finished (Inr None), st)
      else
        (case build (bs_builds st) spec search_results of
           Inr payload \<Rightarrow>
             (case package_dir of
                None \<Rightarrow> Finished (Inr (Some payload))
              | Some dir \<Rightarrow> Packaging payload dir)
         | Inl e \<Rightarrow>
             if e = SearchError \<or> e = LLMError then Building search_results (Suc attempt)
             else Finished (Inl e),
         st\<lparr>bs_builds := Suc (bs_builds st)\<rparr>))"
| "task_step search build package package_dir agent spec (Packaging payload dir) st =
     (case package (bs_packages st) payload dir of
        Inl e \<Rightarrow> Finished (Inl e)
      | Inr pkg_path \<Rightarrow> Finished (Inr (Some (dict_set payload (ascii ''_package_dir'') (JStr pkg_path)))),
      st\<lparr>bs_packages := Suc (bs_packages st)\<rparr>)"
| "task_step search build package package_dir agent spec (Finished r) st = (Finished r, st)"

definition is_finished :: "task \<Rightarrow> bool" where
  "is_finished t = (case t of Finished r \<Rightarrow> True | _ \<Rightarrow> False)"

definition is_running :: "task \<Rightarrow> bool" where
  "is_running t = (t \<noteq> Queued \<and> \<not> is_finished t)"

text \<open>
  The pool starts the tasks in the order of submission and runs at most
  \<open>workers\<close> of them at a time.
\<close>

definition can_start :: "int \<Rightarrow> (QuerySpec \<times> task) list \<Rightarrow> nat \<Rightarrow> bool" where
  "can_start workers tasks i =
     (list_all (\<lambda>(spec, t). t \<noteq> Queued) (take i tasks)
      \<and> int (length (filter (\<lambda>(spec, t). is_running t) tasks)) < workers)"

inductive pool_step ::
  "search_service \<Rightarrow> build_service \<Rightarrow> package_service \<Rightarrow> pystr option \<Rightarrow> QueryConstructionAgent
     \<Rightarrow> int \<Rightarrow> (QuerySpec \<times> task) list \<times> batch_state \<Rightarrow> (QuerySpec \<times> task) list \<times> batch_state
     \<Rightarrow> bool"
  for search build package package_dir agent workers where
  step: "i < length tasks \<Longrightarrow> tasks ! i = (spec, t) \<Longrightarrow> \<not> is_finished t \<Longrightarrow>
         can_start workers tasks i \<or> t \<noteq> Queued \<Longrightarrow>
         task_step search build package package_dir agent spec t st = (t', st') \<Longrightarrow>
         pool_step search build package package_dir agent workers
           (tasks, st) (tasks[i := (spec, t')], st')"

text \<open>
  The fan-in: the result of a task that raised is dropped, as is \<open>None\<close> and an empty
  payload; the other payloads are returned in the order of the specifications.
\<close>

definition fan_in :: "(QuerySpec \<times> task) list \<Rightarrow> pydict list" where
  "fan_in tasks =
     concat (map (\<lambda>(spec, t). case t of
                                 Finished (Inr (Some payload)) \<Rightarrow> if payload \<noteq> [] then [payload] else []
                               | _ \<Rightarrow> [])
               tasks)"

text \<open>
  \<open>generate_batch\<close> relates its arguments to a possible outcome: the returned list or
  the exception that leaves it. The sequential branch has one outcome; the parallel
  branch has one for every schedule of the pool.
\<close>

definition generate_batch ::
  "search_service \<Rightarrow> build_service \<Rightarrow> package_service \<Rightarrow> pystr option \<Rightarrow> QueryConstructionAgent
     \<Rightarrow> int option \<Rightarrow> env_int \<Rightarrow> QuerySpec list \<Rightarrow> py_error + pydict list \<Rightarrow> bool" where
  "generate_batch search build package package_dir agent max_workers env_workers specs out =
     (let resolved_workers = resolve_workers max_workers env_workers
      in if resolved_workers = 1 \<or> length specs \<le> 1
         then out = fst (batch_sequential search build package package_dir agent specs initial_state [])
         else \<exists>tasks st.
                (pool_step search build package package_dir agent resolved_workers)\<^sup>*\<^sup>*
                   (map (\<lambda>spec. (spec, Queued)) specs, initial_state) (tasks, st)
                \<and> list_all (\<lambda>(spec, t). is_finished t) tasks
                \<and> out = Inr (fan_in tasks))"

section \<open>Payload normalisation (agent.py, \_post\_process)\<close>

subsection \<open>Dictionaries and dynamic values\<close>

text \<open>Truth of a value in a condition (\<open>x or y\<close>, \<open>if x\<close>).\<close>

fun truthy :: "json \<Rightarrow> bool" where
  "truthy JNull = False"
| "truthy (JBool b) = b"
| "truthy (JInt n) = (n \<noteq> 0)"
| "truthy (JStr s) = (s \<noteq> [])"
| "truthy (JList xs) = (xs \<noteq> [])"
| "truthy (JDict d) = (d \<noteq> [])"

text \<open>\<open>d.get(k)\<close>, where a missing key gives \<open>None\<close>; \<open>d.get(k) or v\<close>;
  \<open>d.setdefault(k, v)\<close>.\<close>

definition py_get :: "pydict \<Rightarrow> pystr \<Rightarrow> json" where
  "py_get d k = (case map_of d k of None \<Rightarrow> JNull | Some v \<Rightarrow> v)"

definition get_or :: "pydict \<Rightarrow> pystr \<Rightarrow> json \<Rightarrow> json" where
  "get_or d k v = (if truthy (py_get d k) then py_get d k else v)"

definition dict_setdefault :: "pydict \<Rightarrow> pystr \<Rightarrow> json \<Rightarrow> pydict" where
  "dict_setdefault d k v = (case map_of d k of None \<Rightarrow> d @ [(k, v)] | Some _ \<Rightarrow> d)"

text \<open>
  \<open>str(x)\<close>: a string is itself; the text of any other value is given by the
  parameter \<open>repr\<close> of the model.
\<close>

definition py_str :: "(json \<Rightarrow> pystr) \<Rightarrow> json \<Rightarrow> pystr" where
  "py_str repr x = (case x of JStr s \<Rightarrow> s | _ \<Rightarrow> repr x)"

text \<open>\<open>list(x)\<close>: the items of a list, the characters of a string, the keys of a
  dictionary; a \<open>TypeError\<close> for a value that cannot be iterated.\<close>

definition py_list :: "json \<Rightarrow> py_error + json list" where
  "py_list x =
     (case x of
        JList xs \<Rightarrow> Inr xs
      | JStr s \<Rightarrow> Inr (map (\<lambda>c. JStr [c]) s)
      | JDict d \<Rightarrow> Inr (map (\<lambda>(k, v). JStr k) d)
      | _ \<Rightarrow> Inl OtherError)"

definition opt_json :: "pystr option \<Rightarrow> json" where
  "opt_json x = (case x of None \<Rightarrow> JNull | Some s \<Rightarrow> JStr s)"

definition str_list :: "pystr list \<Rightarrow> json" where
  "str_list xs = JList (map JStr xs)"

text \<open>The idioms by which the source rewrites a field.
  \<^item> \<open>v = d.get(k)\<close>; if \<open>v\<close> is a string, \<open>d[k] = f(v)\<close>.
  \<^item> \<open>arr = d.get(k)\<close>; if \<open>arr\<close> is a list, \<open>d[k] = [g(x) for x in arr]\<close>.
  \<^item> \<open>arr = d.get(k) or []\<close>; if \<open>arr\<close> is a list, \<open>d[k] = [g(x) for x in arr]\<close>.
  \<^item> if \<open>k in d\<close>, \<open>d[k] = g(d[k])\<close>.
  \<^item> \<open>sub = d.get(k) or {}\<close>; if \<open>sub\<close> is a dictionary, rewrite \<open>sub\<close> and
    set \<open>d[k] = sub\<close>.\<close>

definition map_if_str :: "(pystr \<Rightarrow> pystr) \<Rightarrow> pydict \<Rightarrow> pystr \<Rightarrow> pydict" where
  "map_if_str f d k = (case py_get d k of JStr s \<Rightarrow> dict_set d k (JStr (f s)) | _ \<Rightarrow> d)"

definition map_if_list :: "(json \<Rightarrow> json) \<Rightarrow> pydict \<Rightarrow> pystr \<Rightarrow> pydict" where
  "map_if_list g d k = (case py_get d k of JList xs \<Rightarrow> dict_set d k (JList (map g xs)) | _ \<Rightarrow> d)"

definition map_list_or_empty :: "(json \<Rightarrow> json) \<Rightarrow> pydict \<Rightarrow> pystr \<Rightarrow> pydict" where
  "map_list_or_empty g d k =
     (case get_or d k (JList []) of JList xs \<Rightarrow> dict_set d k (JList (map g xs)) | _ \<Rightarrow> d)"

definition map_if_present :: "(json \<Rightarrow> json) \<Rightarrow> pydict \<Rightarrow> pystr \<Rightarrow> pydict" where
  "map_if_present g d k = (case map_of d k of None \<Rightarrow> d | Some v \<Rightarrow> dict_set d k (g v))"

definition with_subdict :: "pydict \<Rightarrow> pystr \<Rightarrow> (pydict \<Rightarrow> pydict) \<Rightarrow> pydict" where
  "with_subdict d k f =
     (case get_or d k (JDict []) of JDict sub \<Rightarrow> dict_set d k (JDict (f sub)) | _ \<Rightarrow> d)"

text \<open>A comprehension whose body may raise: the first error, or all the values.\<close>

fun map_result :: "('a \<Rightarrow> py_error + 'b) \<Rightarrow> 'a list \<Rightarrow> py_error + 'b list" where
  "map_result f [] = Inr []"
| "map_result f (x # xs) =
     (case f x of
        Inl e \<Rightarrow> Inl e
      | Inr y \<Rightarrow> (case map_result f xs of Inl e \<Rightarrow> Inl e | Inr ys \<Rightarrow> Inr (y # ys)))"

text \<open>\<open>re.sub\<close> with each rule of a list in turn.\<close>

definition apply_rules :: "bool \<Rightarrow> (regex \<times> pystr) list \<Rightarrow> pystr \<Rightarrow> pystr" where
  "apply_rules ic rules s = foldl (\<lambda>out (pat, rep). re_sub ic pat rep out) s rules"

subsection \<open>Dictionaries of the dataclasses\<close>

definition search_result_to_dict :: "SearchResult \<Rightarrow> pydict" where
  "search_result_to_dict r =
     [(ascii ''title'', JStr (sr_title r)), (ascii ''url'', JStr (sr_url r)),
      (ascii ''snippet'', JStr (sr_snippet r)), (ascii ''source'', opt_json (sr_source r)),
      (ascii ''date'', opt_json (sr_date r)), (ascii ''search_query'', opt_json (sr_search_query r))]"

definition source_to_dict :: "GroundTruthSource \<Rightarrow> pydict" where
  "source_to_dict s =
     [(ascii ''title'', JStr (gs_title s)), (ascii ''url'', JStr (gs_url s)),
      (ascii ''snippet'', opt_json (gs_snippet s)), (ascii ''source'', opt_json (gs_source s)),
      (ascii ''date'', opt_json (gs_date s)), (ascii ''search_query'', opt_json (gs_search_query s))]"

definition bundle_to_dict :: "GroundTruthBundle \<Rightarrow> pydict" where
  "bundle_to_dict b =
     [(ascii ''primary'', JDict (source_to_dict (gb_primary b))),
      (ascii ''supporting'', JList (map (\<lambda>s. JDict (source_to_dict s)) (gb_supporting b)))]"

definition persona_to_dict :: "PersonaProfile \<Rightarrow> pydict" where
  "persona_to_dict p =
     [(ascii ''id'', JStr (pp_identifier p)), (ascii ''name'', JStr (pp_name p)),
      (ascii ''seniority'', JStr (pp_seniority p)), (ascii ''description'', JStr (pp_description p)),
      (ascii ''motivations'', str_list (pp_motivations p)),
      (ascii ''pain_points'', str_list (pp_pain_points p))]"

definition context_to_dict :: "ContextBundle \<Rightarrow> pydict" where
  "context_to_dict c =
     [(ascii ''persona'', JDict (persona_to_dict (cb_persona c))),
      (ascii ''user_statement'', JStr (cb_user_statement c)),
      (ascii ''constraints'', str_list (cb_constraints c)),
      (ascii ''available_assets'', str_list (cb_available_assets c)),
      (ascii ''success_metrics'', str_list (cb_success_metrics c))]"

text \<open>\<open>QuerySpec.to_metadata\<close>; it raises where the level or the orientation is not
  recognised.\<close>

definition to_metadata :: "QuerySpec \<Rightarrow> py_error + pydict" where
  "to_metadata spec =
     (case normalized_level spec of
        Inl e \<Rightarrow> Inl e
      | Inr lvl \<Rightarrow>
          (case normalized_orientation spec of
             Inl e \<Rightarrow> Inl e
           | Inr ori \<Rightarrow>
               Inr ([(ascii ''query_id'', JStr (spec_query_id spec)),
                     (ascii ''level'', JStr lvl),
                     (ascii ''language'', JStr (spec_language spec)),
                     (ascii ''search_query'', JStr (search_query spec)),
                     (ascii ''search_queries'', str_list (spec_search_queries spec)),
                     (ascii ''notes'', opt_json (spec_notes spec)),
                     (ascii ''orientation'', JStr ori),
                     (ascii ''industry'', opt_json (spec_industry spec)),
                     (ascii ''profession'', opt_json (spec_profession spec)),
                     (ascii ''task_metadata'', JDict (spec_task_metadata spec))]
                    @ (case spec_context_bundle spec of
                         None \<Rightarrow> []
                       | Some c \<Rightarrow> [(ascii ''context'', JDict (context_to_dict c))])
                    @ (if spec_context_documents spec \<noteq> []
                       then [(ascii ''context_documents'', JList (spec_context_documents spec))]
                       else []))))"

subsection \<open>Terminology scrubbing\<close>

text \<open>The pattern \<open>Ground\s*Truth\<close>, used with \<open>re.IGNORECASE\<close>, and its
  replacement, the four characters U+53C2 U+8003 U+8D44 U+6599.\<close>

definition GT_RE :: regex where
  "GT_RE = Cat (lit (ascii ''Ground'')) (Cat (Star CSpace) (lit (ascii ''Truth'')))"

definition GT_REP :: pystr where
  "GT_REP = [0x53C2, 0x8003, 0x8D44, 0x6599]"

definition gt_replace :: "pystr \<Rightarrow> pystr" where
  "gt_replace s = re_sub True GT_RE GT_REP s"

definition scrub_public_gt_terms :: "(json \<Rightarrow> pystr) \<Rightarrow> pydict \<Rightarrow> pydict" where
  "scrub_public_gt_terms repr payload =
     (let items = (\<lambda>x. JStr (gt_replace (py_str repr x)));
          p1 = foldl (map_if_str gt_replace) payload
                 [ascii ''title'', ascii ''role_and_background'', ascii ''tool_usage_expectation'',
                  ascii ''estimated_human_time'', ascii ''notes''];
          p2 = foldl (map_if_list items) p1 [ascii ''task_objectives'', ascii ''grading_rubric''];
          p3 = with_subdict p2 (ascii ''deliverables'')
                 (\<lambda>deliver.
                    foldl (map_if_str gt_replace)
                      (map_if_list items deliver (ascii ''expected_outputs''))
                      [ascii ''format_requirements'', ascii ''quality_bar'']);
          p4 = with_subdict p3 (ascii ''inputs_and_resources'')
                 (\<lambda>inres.
                    foldl (map_if_str gt_replace)
                      (map_if_list items inres (ascii ''provided_materials''))
                      [ascii ''allowed_external_research'', ascii ''ground_truth_usage'',
                       ascii ''reference_usage'']);
          p5 = with_subdict p4 (ascii ''standard_answer'')
                 (\<lambda>sa. map_if_list items (map_if_str gt_replace sa (ascii ''summary''))
                         (ascii ''key_points''));
          p6 = with_subdict p5 (ascii ''evaluation_guide'')
                 (\<lambda>eg. foldl (map_if_list items) (map_if_str gt_replace eg (ascii ''summary''))
                         [ascii ''checkpoints'', ascii ''scoring_rubric'']);
          p7 = with_subdict p6 (ascii ''context'')
                 (\<lambda>ctx.
                    let ctx1 = with_subdict ctx (ascii ''persona'')
                                 (\<lambda>person. foldl (map_if_str gt_replace) person
                                              [ascii ''name'', ascii ''description'']);
                        ctx2 = map_if_str gt_replace ctx1 (ascii ''user_statement'')
                    in foldl (map_if_list items) ctx2
                         [ascii ''constraints'', ascii ''available_assets'', ascii ''success_metrics''])
      in p7)"

subsection \<open>Internal-scope sanitisation\<close>

definition internal_keywords :: "pystr list" where
  "internal_keywords =
     [[0x5185, 0x90E8], ascii ''internal'', [0x673A, 0x5BC6], ascii ''confidential'']"

definition context_supports_internal_assets :: "ContextBundle \<Rightarrow> bool" where
  "context_supports_internal_assets context =
     (let fields = cb_constraints context @ cb_available_assets context @ cb_success_metrics context
                     @ [cb_user_statement context] @ [pp_description (cb_persona context)]
      in list_ex (\<lambda>text. text \<noteq> [] \<and> list_ex (\<lambda>keyword. sublist keyword text) internal_keywords)
           fields)"

text \<open>The seven patterns of \<open>_sanitize_internal_scope\<close>; the first five begin with
  the optional group of the two characters U+516C U+53F8.\<close>

definition internal_patterns :: "(regex \<times> pystr) list" where
  "internal_patterns =
     (let company = Alt (lit [0x516C, 0x53F8]) Eps
      in [(Cat company (lit [0x5185, 0x90E8, 0x8D44, 0x6599]), [0x63D0, 0x4F9B, 0x7684, 0x516C, 0x5F00, 0x8D44, 0x6599]),
          (Cat company (lit [0x5185, 0x90E8, 0x6570, 0x636E]), [0x63D0, 0x4F9B, 0x7684, 0x516C, 0x5F00, 0x6570, 0x636E]),
          (Cat company (lit [0x5185, 0x90E8, 0x6587, 0x6863]), [0x63D0, 0x4F9B, 0x7684, 0x53C2, 0x8003, 0x8D44, 0x6599]),
          (Cat company (lit [0x5185, 0x90E8, 0x62A5, 0x544A]), [0x516C, 0x5F00, 0x62A5, 0x544A]),
          (Cat company (lit [0x5185, 0x90E8, 0x7CFB, 0x7EDF]), [0x6388, 0x6743, 0x7684, 0x516C, 0x5F00, 0x7CFB, 0x7EDF]),
          (lit [0x5185, 0x90E8, 0x6D41, 0x7A0B, 0x6587, 0x6863], [0x63D0, 0x4F9B, 0x7684, 0x6D41, 0x7A0B, 0x8D44, 0x6599]),
          (lit [0x5185, 0x90E8, 0x6D41, 0x7A0B], [0x516C, 0x5F00, 0x53EF, 0x9A8C, 0x8BC1, 0x6D41, 0x7A0B])])"

definition replace_text :: "json \<Rightarrow> json" where
  "replace_text v = (case v of JStr s \<Rightarrow> JStr (apply_rules False internal_patterns s) | _ \<Rightarrow> v)"

definition sanitize_list :: "json \<Rightarrow> json" where
  "sanitize_list v = (case v of JList xs \<Rightarrow> JList (map replace_text xs) | _ \<Rightarrow> v)"

definition internal_clause :: pystr where
  "internal_clause =
     [0x4E0D, 0x5F97, 0x5047, 0x8BBE, 0x989D, 0x5916, 0x7684, 0x516C, 0x53F8, 0x5185,
     0x90E8, 0x8D44, 0x6599, 0xFF0C, 0x9664, 0x975E, 0x5DF2, 0x5728, 0x201C, 0x63D0, 0x4F9B,
     0x7684, 0x8D44, 0x6599, 0x201D, 0x4E2D, 0x660E, 0x786E, 0x5217, 0x51FA, 0x3002]"

text \<open>The standing disclaimer on \<open>allowed_external_research\<close>: appended unless it is
  a substring already, after the separator that the end of the text asks for.\<close>

definition add_internal_clause :: "pydict \<Rightarrow> pydict" where
  "add_internal_clause inres =
     (case py_get inres (ascii ''allowed_external_research'') of
        JStr existing \<Rightarrow>
          if \<not> sublist internal_clause existing
          then let separator =
                     (if suffix [0x3002] existing \<or> suffix (ascii ''.'') existing
                         \<or> suffix [0xFF1B] existing \<or> suffix (ascii '';'') existing
                      then [] else ascii '' '')
               in dict_set inres (ascii ''allowed_external_research'')
                    (JStr (existing @ separator @ internal_clause))
          else inres
      | _ \<Rightarrow> dict_set inres (ascii ''allowed_external_research'') (JStr internal_clause))"

definition sanitize_internal_scope :: "pydict \<Rightarrow> ContextBundle \<Rightarrow> pydict" where
  "sanitize_internal_scope payload context =
     (if context_supports_internal_assets context then payload
      else
        let p1 = foldl (map_if_present replace_text) payload
                   [ascii ''role_and_background'', ascii ''notes'', ascii ''tool_usage_expectation'',
                    ascii ''estimated_human_time''];
            p2 = foldl (map_if_present sanitize_list) p1
                   [ascii ''task_objectives'', ascii ''grading_rubric''];
            p3 = with_subdict p2 (ascii ''deliverables'')
                   (\<lambda>deliver.
                      foldl (map_if_present replace_text)
                        (map_if_present sanitize_list deliver (ascii ''expected_outputs''))
                        [ascii ''format_requirements'', ascii ''quality_bar'']);
            p4 = with_subdict p3 (ascii ''inputs_and_resources'')
                   (\<lambda>inres.
                      add_internal_clause
                        (foldl (map_if_present replace_text)
                           (map_if_present sanitize_list inres (ascii ''provided_materials''))
                           [ascii ''allowed_external_research'', ascii ''reference_usage'',
                            ascii ''ground_truth_usage'']));
            p5 = with_subdict p4 (ascii ''standard_answer'')
                   (\<lambda>sa. map_if_present sanitize_list
                           (map_if_present replace_text sa (ascii ''summary''))
                           (ascii ''key_points''));
            p6 = with_subdict p5 (ascii ''evaluation_guide'')
                   (\<lambda>ev. foldl (map_if_present sanitize_list)
                           (map_if_present replace_text ev (ascii ''summary''))
                           [ascii ''checkpoints'', ascii ''scoring_rubric''])
        in p6)"

subsection \<open>Level-specific compliance\<close>

text \<open>The eleven rules of \<open>_sanitize_text\<close>, applied with \<open>re.IGNORECASE\<close>.\<close>

definition sop_rules :: "(regex \<times> pystr) list" where
  "sop_rules =
     [(lit [0x5206, 0x5E03, 0x5F0F, 0x8BAD, 0x7EC3], [0x5206, 0x5E03, 0x5F0F, 0x63A8, 0x7406, 0x2F, 0x9A8C, 0x8BC1]),
      (lit [0x8BAD, 0x7EC3, 0x2F, 0x63A8, 0x7406], [0x63A8, 0x7406, 0x2F, 0x9A8C, 0x8BC1]),
      (lit [0x8BAD, 0x7EC3, 0x65E5, 0x5FD7], [0x63A8, 0x7406, 0x2F, 0x9A8C, 0x8BC1, 0x65E5, 0x5FD7]),
      (lit [0x8BAD, 0x7EC3, 0x541E, 0x5410], [0x63A8, 0x7406, 0x541E, 0x5410]),
      (Cat (lit [0x8BAD, 0x7EC3]) (Cat (Star CSpace) (lit [0x6027, 0x80FD])), [0x63A8, 0x7406, 0x2F, 0x9A8C, 0x8BC1, 0x6027, 0x80FD]),
      (lit ([0x8BAD, 0x7EC3] @ ascii ''PPL''), ([0x9A8C, 0x8BC1] @ ascii ''PPL'')),
      (Cat (lit [0x8BAD, 0x7EC3]) (Cat (Star CSpace) (lit [0x7A33, 0x5B9A, 0x6027])), [0x9A8C, 0x8BC1, 0x7A33, 0x5B9A, 0x6027]),
      (lit [0x8BAD, 0x7EC3], [0x9A8C, 0x8BC1]),
      (Alt (Cat (lit (ascii ''fine'')) (Cat (Alt (Atom (CChar 0x2D)) Eps) (lit (ascii ''tune''))))
           (lit [0x5FAE, 0x8C03]),
       [0x9A8C, 0x8BC1, 0x5B9E, 0x9A8C]),
      (lit [0x5927, 0x89C4, 0x6A21], [0x5C0F, 0x89C4, 0x6A21, 0x53EF, 0x590D, 0x6838]),
      (lit [0x957F, 0x65F6, 0x95F4], [0x77ED, 0x65F6])]"

definition sanitize_text :: "pystr \<Rightarrow> pystr" where
  "sanitize_text s = apply_rules True sop_rules s"

definition tool_usage_guardrail :: pystr where
  "tool_usage_guardrail =
     ([0x4EE5, 0x5355, 0x4E00, 0x6838, 0x5FC3] @ ascii ''Agent'' @ [0xFF08] @
     ascii ''Call Code'' @ [0x6216] @ ascii ''Deep Research'' @ [0xFF09, 0x4E3B, 0x5BFC,
     0xFF0C, 0x5F3A, 0x8C03, 0x68C0, 0x7D22, 0x2D, 0x590D, 0x6838, 0x2D, 0x5BF9, 0x6BD4,
     0xFF1B])
       @ ([0x7981, 0x6B62, 0x5927, 0x89C4, 0x6A21, 0x8BAD, 0x7EC3, 0xFF0C, 0x5141, 0x8BB8,
     0x77ED, 0x65F6, 0x9A8C, 0x8BC1, 0x5B9E, 0x9A8C, 0xFF08, 0x2264] @ ascii ''2 GPU'' @
     [0xB7, 0x5C0F, 0x65F6, 0xFF09])"

definition notes_add :: pystr where
  "notes_add =
     [0x20, 0x8D44, 0x6E90, 0x4E0E, 0x65F6, 0x95F4, 0x62A4, 0x680F, 0xFF1A, 0x2264, 0x31,
     0x5468, 0x5B8C, 0x6210, 0xFF1B, 0x4EC5, 0x4F7F, 0x7528, 0x516C, 0x5F00, 0x53EF, 0x83B7,
     0x53D6, 0x6216, 0x5408, 0x6210, 0x6570, 0x636E, 0xFF1B]
       @ ([0x7981, 0x6B62, 0x957F, 0x65F6, 0x95F4, 0x2F, 0x5927, 0x89C4, 0x6A21, 0x8BAD, 0x7EC3,
     0xFF1B, 0x5982, 0x9700, 0x8FD0, 0x884C, 0x5B9E, 0x9A8C, 0xFF0C, 0x4EC5, 0x9650, 0x77ED,
     0x65F6, 0x9A8C, 0x8BC1, 0xFF08, 0x2264] @ ascii ''2 GPU'' @ [0xB7, 0x5C0F, 0x65F6,
     0xFF09, 0x3002])"

definition enforce_sop_compliance :: "(json \<Rightarrow> pystr) \<Rightarrow> pydict \<Rightarrow> pydict" where
  "enforce_sop_compliance repr payload =
     (let level = py_upper (py_str repr (get_or payload (ascii ''level'') (JStr [])))
      in if level \<noteq> ascii ''L4'' then payload
         else
           let items = (\<lambda>x. JStr (sanitize_text (py_str repr x)));
               p1 = map_list_or_empty items payload (ascii ''task_objectives'');
               p2 = with_subdict p1 (ascii ''deliverables'')
                      (\<lambda>deliver.
                         foldl (map_if_str sanitize_text)
                           (map_list_or_empty items deliver (ascii ''expected_outputs''))
                           [ascii ''format_requirements'', ascii ''quality_bar'']);
               p3 = map_list_or_empty items p2 (ascii ''grading_rubric'');
               p4 = with_subdict p3 (ascii ''evaluation_guide'')
                      (\<lambda>eg. foldl (map_list_or_empty items) eg
                              [ascii ''checkpoints'', ascii ''scoring_rubric'']);
               p5 = with_subdict p4 (ascii ''standard_answer'')
                      (\<lambda>sa. map_if_str sanitize_text
                              (map_list_or_empty items sa (ascii ''key_points''))
                              (ascii ''summary''));
               p6 = map_if_str (\<lambda>tue. tool_usage_guardrail) p5 (ascii ''tool_usage_expectation'');
               notes = get_or p6 (ascii ''notes'') (JStr [])
           in dict_set p6 (ascii ''notes'')
                (JStr (py_strip (py_strip (py_str repr notes) @ ascii '' '' @ notes_add))))"

subsection \<open>Exclusion of the primary from the provided materials\<close>

text \<open>The pattern \<open>https?://[^\s)\]\"]+\<close>.\<close>

definition URL_RE :: regex where
  "URL_RE =
     (let c = CNot (COr CSpace (COr (CChar 0x29) (COr (CChar 0x5D) (CChar 0x22))))
      in Cat (lit (ascii ''http'')) (Cat (Alt (Atom (CChar 0x73)) Eps)
           (Cat (lit (ascii ''://'')) (Cat (Atom c) (Star c)))))"

text \<open>\<open>urlparse(u).netloc.lower()\<close>.\<close>

definition url_host :: "pystr \<Rightarrow> py_error + pystr" where
  "url_host u = (case urlparse u of Inl e \<Rightarrow> Inl e | Inr parsed \<Rightarrow> Inr (py_lower (pr_netloc parsed)))"

text \<open>
  \<open>d.get(k)\<close> on a value that has to be a dictionary, and \<open>(d.get(k) or "").strip()\<close>
  on a value that has to be a string: on a value of another type the attribute is
  missing and the source raises.
\<close>

definition as_dict :: "json \<Rightarrow> py_error + pydict" where
  "as_dict v = (case v of JDict d \<Rightarrow> Inr d | _ \<Rightarrow> Inl OtherError)"

definition stripped_or_empty :: "json \<Rightarrow> py_error + pystr" where
  "stripped_or_empty v =
     (if \<not> truthy v then Inr []
      else case v of JStr s \<Rightarrow> Inr (py_strip s) | _ \<Rightarrow> Inl OtherError)"

text \<open>The test of one entry of the list: whether it is dropped.\<close>

definition mentions_primary :: "(json \<Rightarrow> pystr) \<Rightarrow> pystr \<Rightarrow> pystr \<Rightarrow> pystr \<Rightarrow> json \<Rightarrow> py_error + bool" where
  "mentions_primary repr primary_url primary_title p_host s =
     (let text = py_str repr (if truthy s then s else JStr []);
          urls = re_findall False URL_RE text
      in case map_result url_host urls of
           Inl e \<Rightarrow> Inl e
         | Inr hosts \<Rightarrow>
             Inr (list_ex (\<lambda>u. py_strip u = primary_url) urls
                  \<or> (p_host \<noteq> [] \<and> p_host \<in> set hosts)
                  \<or> (primary_title \<noteq> [] \<and> sublist primary_title text)))"

text \<open>The loop over the entries.\<close>

fun keep_materials ::
  "(json \<Rightarrow> pystr) \<Rightarrow> pystr \<Rightarrow> pystr \<Rightarrow> pystr \<Rightarrow> json list \<Rightarrow> py_error + json list" where
  "keep_materials repr primary_url primary_title p_host [] = Inr []"
| "keep_materials repr primary_url primary_title p_host (s # items) =
     (case mentions_primary repr primary_url primary_title p_host s of
        Inl e \<Rightarrow> Inl e
      | Inr dropped \<Rightarrow>
          (case keep_materials repr primary_url primary_title p_host items of
             Inl e \<Rightarrow> Inl e
           | Inr kept \<Rightarrow> Inr (if dropped then kept else s # kept)))"

text \<open>The backfill loop over \<open>refs[:3]\<close>, on the list \<open>kept\<close>.\<close>

fun backfill :: "pystr \<Rightarrow> pystr \<Rightarrow> json list \<Rightarrow> json list \<Rightarrow> py_error + json list" where
  "backfill primary_url p_host [] kept = Inr kept"
| "backfill primary_url p_host (ref # refs) kept =
     (case ref of
        JDict d \<Rightarrow>
          (case stripped_or_empty (py_get d (ascii ''url'')) of
             Inl e \<Rightarrow> Inl e
           | Inr u \<Rightarrow>
               if u = [] then backfill primary_url p_host refs kept
               else
                 (case url_host u of
                    Inl e \<Rightarrow> Inl e
                  | Inr h \<Rightarrow>
                      if u = primary_url \<or> (p_host \<noteq> [] \<and> h = p_host)
                      then backfill primary_url p_host refs kept
                      else
                        (case stripped_or_empty (get_or d (ascii ''title'') (JStr u)) of
                           Inl e \<Rightarrow> Inl e
                         | Inr title \<Rightarrow>
                             let kept' = kept @ [JStr (title @ ascii '': '' @ u)]
                             in if 3 \<le> length kept' then Inr kept'
                                else backfill primary_url p_host refs kept')))
      | _ \<Rightarrow> backfill primary_url p_host refs kept)"

text \<open>\<open>refs[:3]\<close> of the value of \<open>references\<close>: a list or a string can be sliced,
  another value raises.\<close>

definition first_three :: "json \<Rightarrow> py_error + json list" where
  "first_three refs =
     (case refs of
        JList xs \<Rightarrow> Inr (take 3 xs)
      | JStr s \<Rightarrow> Inr (map (\<lambda>c. JStr [c]) (take 3 s))
      | _ \<Rightarrow> Inl OtherError)"

definition drop_primary_from_provided_materials ::
  "(json \<Rightarrow> pystr) \<Rightarrow> pydict \<Rightarrow> py_error + pydict" where
  "drop_primary_from_provided_materials repr payload =
     (case as_dict (get_or payload (ascii ''ground_truth'') (JDict [])) of
        Inl e \<Rightarrow> Inl e
      | Inr gt \<Rightarrow>
     (case as_dict (get_or gt (ascii ''primary'') (JDict [])) of
        Inl e \<Rightarrow> Inl e
      | Inr primary \<Rightarrow>
     (case stripped_or_empty (py_get primary (ascii ''url'')) of
        Inl e \<Rightarrow> Inl e
      | Inr primary_url \<Rightarrow>
     (case stripped_or_empty (py_get primary (ascii ''title'')) of
        Inl e \<Rightarrow> Inl e
      | Inr primary_title \<Rightarrow>
     if primary_url = [] then Inr payload
     else
     (case url_host primary_url of
        Inl e \<Rightarrow> Inl e
      | Inr p_host \<Rightarrow>
     (case as_dict (get_or payload (ascii ''inputs_and_resources'') (JDict [])) of
        Inl e \<Rightarrow> Inl e
      | Inr inres \<Rightarrow>
     (case py_list (get_or inres (ascii ''provided_materials'') (JList [])) of
        Inl e \<Rightarrow> Inl e
      | Inr items \<Rightarrow>
     (case keep_materials repr primary_url primary_title p_host items of
        Inl e \<Rightarrow> Inl e
      | Inr kept0 \<Rightarrow>
     (case (if kept0 = []
            then (case first_three (get_or payload (ascii ''references'') (JList [])) of
                    Inl e \<Rightarrow> Inl e
                  | Inr refs \<Rightarrow> backfill primary_url p_host refs [])
            else Inr kept0) of
        Inl e \<Rightarrow> Inl e
      | Inr kept \<Rightarrow>
          Inr (dict_set payload (ascii ''inputs_and_resources'')
                 (JDict (dict_set inres (ascii ''provided_materials'') (JList kept)))))))))))))"

subsection \<open>The pipeline\<close>

definition usage_notes_default :: pystr where
  "usage_notes_default =
     ([0x5F15, 0x7528, 0x89C4, 0x8303, 0xFF1A, 0x4F18, 0x5148, 0x4F7F, 0x7528] @
     ascii ''Ground Truth'' @ [0xFF08, 0x4E3B, 0x2B, 0x8F85, 0xFF09, 0x4F5C, 0x4E3A, 0x5224,
     0x5206, 0x4F9D, 0x636E, 0xFF1B, 0x5141, 0x8BB8, 0x5F15, 0x7528] @
     ascii '' references '' @ [0x5217, 0x8868, 0x4E2D, 0x7684, 0x516C, 0x5F00, 0x8D44,
     0x6599, 0x4F5C, 0x4E3A, 0x8865, 0x5145, 0xFF0C])
       @ ([0x9700, 0x6807, 0x6CE8, 0x6765, 0x6E90, 0x2F, 0x8BBF, 0x95EE, 0x65E5, 0x671F, 0x2F,
     0x9875, 0x7801, 0xFF08, 0x6216, 0x6BB5, 0x843D, 0xFF09, 0xFF1B, 0x82E5, 0x4E0E] @
     ascii ''Ground Truth'' @ [0x5B58, 0x5728, 0x51B2, 0x7A81, 0xFF0C, 0x4EE5] @
     ascii ''Ground Truth'' @ [0x4E3A, 0x51C6, 0x3002])"

definition standard_answer_default :: pydict where
  "standard_answer_default =
     [(ascii ''summary'',
       JStr ([0x8BF7, 0x57FA, 0x4E8E] @ ascii ''Ground Truth'' @ [0x63D0, 0x70BC, 0x5173, 0x952E,
     0x8BBA, 0x65AD, 0x5E76, 0x5F62, 0x6210, 0x53EF, 0x9A8C, 0x8BC1, 0x7684, 0x6267, 0x884C,
     0x65B9, 0x6848, 0x3002])),
      (ascii ''key_points'',
       str_list
         [[0x8986, 0x76D6, 0x4EFB, 0x52A1, 0x76EE, 0x6807, 0x3001, 0x884C, 0x52A8, 0x6B65,
     0x9AA4, 0x4E0E, 0x9A8C, 0x6536, 0x6807, 0x51C6, 0x3002],
          ([0x6BCF, 0x4E2A, 0x5173, 0x952E, 0x5224, 0x65AD, 0x5F15, 0x7528] @
     ascii ''Ground Truth'' @ [0x5E76, 0x63D0, 0x4F9B, 0x9A8C, 0x8BC1, 0x65B9, 0x5F0F,
     0x3002])])]"

text \<open>The default evaluation guide, \<open>EvaluationGuide(...).to_dict()\<close>, for the list
  \<open>scoring_rubric\<close>.\<close>

definition evaluation_guide_default :: "json list \<Rightarrow> pydict" where
  "evaluation_guide_default scoring_rubric =
     [(ascii ''summary'',
       JStr ([0x8BC4, 0x4F30, 0x4EA4, 0x4ED8, 0x662F, 0x5426, 0x6EE1, 0x8DB3] @ ascii ''SOP 8.0'' @
     [0xFF08, 0x4E09, 0x45, 0x3001, 0x8BAD, 0x7EC3, 0x2F, 0x7B97, 0x529B, 0x7EA2, 0x7EBF,
     0x3001, 0x5B89, 0x5168, 0x5408, 0x89C4, 0x4E0E, 0x65F6, 0x95F4, 0x7A97, 0x53E3, 0xFF09,
     0x5E76, 0x4E0E] @ ascii ''Ground Truth'' @ [0x4E00, 0x81F4, 0x3002])),
      (ascii ''checkpoints'',
       str_list
         [([0x4EFB, 0x52A1, 0x8303, 0x56F4, 0x3001, 0x4EA4, 0x4ED8, 0x683C, 0x5F0F, 0x3001,
     0x9A8C, 0x6536, 0x6807, 0x51C6, 0x5747, 0x6709, 0x660E, 0x786E, 0x8BF4, 0x660E,
     0xFF08] @ ascii ''Executable'' @ [0xFF09, 0x3002]),
          ([0x5173, 0x952E, 0x5224, 0x65AD, 0x53EF, 0x89E6, 0x53D1, 0x9AD8, 0x9636, 0x80FD,
     0x52A8, 0x6027, 0xFF0C, 0x8003, 0x5BDF, 0x76EE, 0x6807, 0x660E, 0x786E, 0xFF08] @
     ascii ''Examining'' @ [0xFF09, 0x3002]),
          ([0x8BC4, 0x5206, 0x6807, 0x51C6, 0x53EF, 0x91CF, 0x5316, 0x3001, 0x53EF, 0x590D,
     0x6838, 0xFF1B, 0x4E0E, 0x53C2, 0x8003, 0x8D44, 0x6599, 0x2F, 0x57FA, 0x51C6, 0x6709,
     0x5BF9, 0x9F50, 0x6307, 0x6807, 0xFF08] @ ascii ''Evaluable'' @ [0xFF09, 0x3002]),
          ([0x9075, 0x5B88, 0x8BAD, 0x7EC3, 0x2F, 0x7B97, 0x529B, 0x7EA2, 0x7EBF, 0xFF1A] @
     ascii ''training-free'' @ [0xFF1B, 0x7981, 0x6B62, 0x4ECE, 0x5934, 0x8BAD, 0x7EC3,
     0x6216, 0x957F, 0x65F6, 0x95F4, 0x2F, 0x6602, 0x8D35, 0x7B97, 0x529B, 0x4F9D, 0x8D56,
     0x3002]),
          [0x5F15, 0x7528, 0x516C, 0x5F00, 0x3001, 0x4E2D, 0x7ACB, 0x3001, 0x56FD, 0x9645,
     0x5316, 0x8D44, 0x6599, 0xFF1B, 0x5FC5, 0x8981, 0x65F6, 0x8131, 0x654F, 0xFF1B, 0x8BBE,
     0x5B9A, 0x5E76, 0x9075, 0x5B88, 0x8D44, 0x6599, 0x4F7F, 0x7528, 0x7684, 0x65F6, 0x95F4,
     0x7A97, 0x53E3, 0x3002]]),
      (ascii ''scoring_rubric'', JList scoring_rubric)]"

text \<open>The entries of \<open>context_sources\<close> made from the context documents of the
  specification, each a dictionary.\<close>

definition context_source_of :: "json \<Rightarrow> py_error + json" where
  "context_source_of doc =
     (case doc of
        JDict d \<Rightarrow>
          Inr (JDict [(ascii ''name'', py_get d (ascii ''name'')),
                      (ascii ''source_url'', py_get d (ascii ''source'')),
                      (ascii ''local_path'', py_get d (ascii ''path'')),
                      (ascii ''sha256'', py_get d (ascii ''sha256'')),
                      (ascii ''content_type'', py_get d (ascii ''content_type'')),
                      (ascii ''query'', py_get d (ascii ''query'')),
                      (ascii ''snippet'', py_get d (ascii ''content''))])
      | _ \<Rightarrow> Inl OtherError)"

text \<open>
  The first part of \<open>_post_process\<close>, up to the four transforms: the fields stamped
  from the specification, the consolidated \<open>ground_truth\<close> object, the references
  rebuilt from the search results, and the default blocks.
\<close>

definition backfill_fields ::
  "pydict \<Rightarrow> QuerySpec \<Rightarrow> ContextBundle \<Rightarrow> GroundTruthBundle \<Rightarrow> pydict option \<Rightarrow> SearchResult list
     \<Rightarrow> py_error + pydict" where
  "backfill_fields raw_output spec context ground_truth_bundle gt_cache all_results =
     (let p1 = dict_setdefault raw_output (ascii ''query_id'') (JStr (spec_query_id spec))
      in case normalized_level spec of
        Inl e \<Rightarrow> Inl e
      | Inr lvl \<Rightarrow>
     (case normalized_orientation spec of
        Inl e \<Rightarrow> Inl e
      | Inr ori \<Rightarrow>
     (let p2 = dict_set (dict_set p1 (ascii ''level'') (JStr lvl)) (ascii ''orientation'') (JStr ori);
          p3 = dict_setdefault p2 (ascii ''context'') (JDict (context_to_dict context));
          existing_sources = get_or p3 (ascii ''context_sources'') (JList [])
      in case (if \<not> truthy existing_sources \<and> spec_context_documents spec \<noteq> []
               then (case map_result context_source_of (spec_context_documents spec) of
                       Inl e \<Rightarrow> Inl e
                     | Inr sources \<Rightarrow> Inr (JList sources))
               else Inr existing_sources) of
        Inl e \<Rightarrow> Inl e
      | Inr context_sources \<Rightarrow>
     (let p4 = dict_set p3 (ascii ''context_sources'') context_sources
      in case as_dict (get_or p4 (ascii ''ground_truth'') (JDict [])) of
        Inl e \<Rightarrow> Inl e
      | Inr section0 \<Rightarrow>
     (let section1 = foldl (\<lambda>d (k, v). dict_set d k v) section0 (bundle_to_dict ground_truth_bundle);
          section2 = dict_setdefault section1 (ascii ''usage_notes'') (JStr usage_notes_default);
          section3 = (case gt_cache of
                        None \<Rightarrow> section2
                      | Some c \<Rightarrow> if c \<noteq> [] then dict_setdefault section2 (ascii ''cache'') (JDict c)
                                  else section2);
          p5 = dict_set p4 (ascii ''ground_truth'') (JDict section3);
          gt_urls = insert (gs_url (gb_primary ground_truth_bundle))
                      (set (map gs_url (gb_supporting ground_truth_bundle)));
          p6 = dict_set p5 (ascii ''references'')
                 (JList (map (\<lambda>r. JDict (search_result_to_dict r))
                           (filter (\<lambda>r. sr_url r \<notin> gt_urls) all_results)));
          p7 = dict_set p6 (ascii ''search_results'')
                 (JList (map (\<lambda>r. JDict (search_result_to_dict r)) all_results));
          p8 = dict_setdefault p7 (ascii ''standard_answer'') (JDict standard_answer_default)
      in case py_list (case map_of p8 (ascii ''grading_rubric'') of None \<Rightarrow> JList [] | Some v \<Rightarrow> v) of
        Inl e \<Rightarrow> Inl e
      | Inr scoring_rubric \<Rightarrow>
     (let p9 = dict_setdefault p8 (ascii ''evaluation_guide'')
                 (JDict (evaluation_guide_default scoring_rubric));
          p10 = dict_set p9 (ascii ''sop_version'') (JStr (ascii ''8.0''))
      in case to_metadata spec of
        Inl e \<Rightarrow> Inl e
      | Inr metadata \<Rightarrow> Inr (dict_set p10 (ascii ''spec_metadata'') (JDict metadata))))))))"

definition post_process ::
  "(json \<Rightarrow> pystr) \<Rightarrow> pydict \<Rightarrow> QuerySpec \<Rightarrow> ContextBundle \<Rightarrow> GroundTruthBundle \<Rightarrow> pydict option
     \<Rightarrow> SearchResult list \<Rightarrow> py_error + pydict" where
  "post_process repr raw_output spec context ground_truth_bundle gt_cache all_results =
     (case backfill_fields raw_output spec context ground_truth_bundle gt_cache all_results of
        Inl e \<Rightarrow> Inl e
      | Inr payload \<Rightarrow>
          (case drop_primary_from_provided_materials repr payload of
             Inl e \<Rightarrow> Inl e
           | Inr payload1 \<Rightarrow>
               Inr (enforce_sop_compliance repr
                      (sanitize_internal_scope (scrub_public_gt_terms repr payload1) context))))"

section \<open>Notions used in the statements\<close>



text \<open>
  The viable entries of an indexed list other than the entry at position \<open>p\<close>, as
  ground-truth sources: what the final loop of the selector collects from.
\<close>

definition others_viable :: "nat \<Rightarrow> (nat \<times> SearchResult) list \<Rightarrow> GroundTruthSource list" where
  "others_viable p xs =
     map (\<lambda>x. from_search_result (snd x))
       (filter (\<lambda>x. fst x \<noteq> p \<and> is_viable_ground_truth (sr_url (snd x)) = Inr True) xs)"


definition trace_hits :: "trace \<Rightarrow> SearchResult list" where
  "trace_hits tr = concat (map (\<lambda>(call, answer). case answer of Inl e \<Rightarrow> [] | Inr rs \<Rightarrow> rs) tr)"







section \<open>Example data\<close>

text \<open>
  The specification of the end-to-end scenario A: identifier \<open>q1\<close>, level \<open>L3\<close>,
  orientation \<open>positive\<close> and the single query
  \<open>site:gov.cn filetype:pdf\<close> U+5B89 U+5168 U+6807 U+51C6 \<open>2022..2024\<close>;
  the other fields have the defaults of the dataclass.
\<close>

definition spec_q1 :: QuerySpec where
  "spec_q1 =
     \<lparr>spec_query_id = ascii ''q1'', spec_level = ascii ''L3'', spec_scenario = [],
      spec_language = ascii ''zh'', spec_task_focus = [], spec_deliverable_requirements = [],
      spec_evaluation_focus = [], spec_notes = None, spec_orientation = Some (ascii ''positive''),
      spec_industry = None, spec_profession = None, spec_context_bundle = None,
      spec_task_metadata = [], spec_context_documents = [],
      spec_search_queries =
        [ascii ''site:gov.cn filetype:pdf '' @ [0x5B89, 0x5168, 0x6807, 0x51C6] @ ascii '' 2022..2024'']\<rparr>"

text \<open>
  The two hits of scenario A: an HTML page and a PDF document of the same site, in the
  order in which the search backend returns them.
\<close>

definition hit_html :: SearchResult where
  "hit_html =
     \<lparr>sr_title = ascii ''Safety standards'', sr_url = ascii ''https://www.gov.cn/safety/index.html'',
      sr_snippet = ascii ''Overview of the safety standards'', sr_source = None, sr_date = None,
      sr_search_query = None\<rparr>"

definition hit_pdf :: SearchResult where
  "hit_pdf =
     \<lparr>sr_title = ascii ''Safety standard 2023'', sr_url = ascii ''https://www.gov.cn/files/standard2023.pdf'',
      sr_snippet = ascii ''Full text of the standard'', sr_source = None, sr_date = None,
      sr_search_query = None\<rparr>"

text \<open>A backend that fails every call with a search error.\<close>

definition failing_backend :: backend where
  "failing_backend k call = Inl SearchError"

text \<open>
  A second entry for the PDF document: the same URL under another title. A hit that is
  not viable (an image) whose snippet names the site, and a backend that answers every
  call with the two hits of scenario A.
\<close>

definition hit_pdf_copy :: SearchResult where
  "hit_pdf_copy = hit_pdf\<lparr>sr_title := ascii ''Safety standard 2023 (copy)''\<rparr>"

definition hit_logo :: SearchResult where
  "hit_logo =
     \<lparr>sr_title = ascii ''Logo'', sr_url = ascii ''https://cdn.example.org/logo.png'',
      sr_snippet = ascii ''Mirror of www.gov.cn documents'', sr_source = None, sr_date = None,
      sr_search_query = None\<rparr>"

definition mirror_backend :: backend where
  "mirror_backend k call = Inr [hit_html, hit_pdf]"

text \<open>
  An agent with the default endpoint and market, a backend whose first call fails with a
  search error and whose later calls return the two hits of scenario A (scenario B), and
  a stand-in for the relaxation of a query.
\<close>

definition agent_demo :: QueryConstructionAgent where
  "agent_demo =
     \<lparr>agent_serper_endpoint = ascii ''https://google.serper.dev/search'',
      agent_market = ascii ''us''\<rparr>"



text \<open>
  A second specification with the search queries of the first, and services for a batch:
  a search that returns the two hits of scenario A, a generation step that returns a
  payload with the identifier of the specification, and a packaging step whose first
  call raises an exception and whose later calls return a path.
\<close>

definition spec_q2 :: QuerySpec where
  "spec_q2 = spec_q1\<lparr>spec_query_id := ascii ''q2''\<rparr>"

definition demo_search :: search_service where
  "demo_search k spec = Inr [hit_html, hit_pdf]"

definition demo_build :: build_service where
  "demo_build k spec search_results = Inr [(ascii ''query_id'', JStr (spec_query_id spec))]"

definition package_fails_first :: package_service where
  "package_fails_first k payload dir =
     (if k = 0 then Inl OtherError else Inr (dir @ ascii ''/pkg''))"

section \<open>Orientation defaults\<close>

lemma py_strip_Nil: "py_strip [] = []"
  by (simp add: py_strip_def)

lemma py_strip_all_space:
  assumes "\<forall>c \<in> set s. is_space c"
  shows "py_strip s = []"
proof -
  from assms have d: "dropWhile is_space s = []"
    by (induction s) auto
  show ?thesis
    unfolding py_strip_def d by simp
qed

lemma ascii_positive_ne_Nil: "ascii ''positive'' \<noteq> []" "ascii ''inverse'' \<noteq> []"
  by (simp_all add: ascii_def)

text \<open>
  C10, as amended. \<open>normalized_orientation\<close> returns \<open>positive\<close> when the orientation is
  \<open>None\<close> or the empty string. For every other value it trims and lowercases the value
  and accepts exactly \<open>positive\<close> and \<open>inverse\<close>, so recognition is case-insensitive
  after trimming; a non-empty value made only of whitespace trims to the empty string and
  raises the validation error.
\<close>

theorem normalized_orientation_cases:
  "(spec_orientation spec = None \<or> spec_orientation spec = Some []
      \<longrightarrow> normalized_orientation spec = Inr (ascii ''positive''))
   \<and> (\<forall>s. spec_orientation spec = Some s \<and> s \<noteq> [] \<longrightarrow>
         normalized_orientation spec =
           (if py_lower (py_strip s) = ascii ''positive'' \<or> py_lower (py_strip s) = ascii ''inverse''
            then Inr (py_lower (py_strip s)) else Inl ValueError))
   \<and> (\<forall>s. spec_orientation spec = Some s \<and> s \<noteq> [] \<and> (\<forall>c \<in> set s. is_space c) \<longrightarrow>
         normalized_orientation spec = Inl ValueError)"
proof (intro conjI allI impI)
  assume "spec_orientation spec = None \<or> spec_orientation spec = Some []"
  then show "normalized_orientation spec = Inr (ascii ''positive'')"
    by (auto simp: normalized_orientation_def ascii_def py_strip_def py_lower_def
        is_space_def lower_char_def)
next
  fix s assume "spec_orientation spec = Some s \<and> s \<noteq> []"
  then show "normalized_orientation spec =
      (if py_lower (py_strip s) = ascii ''positive'' \<or> py_lower (py_strip s) = ascii ''inverse''
       then Inr (py_lower (py_strip s)) else Inl ValueError)"
    by (simp add: normalized_orientation_def Let_def)
next
  fix s assume a: "spec_orientation spec = Some s \<and> s \<noteq> [] \<and> (\<forall>c \<in> set s. is_space c)"
  then have "py_strip s = []" by (simp add: py_strip_all_space)
  with a show "normalized_orientation spec = Inl ValueError"
    using ascii_positive_ne_Nil
    by (simp add: normalized_orientation_def Let_def py_lower_def)
qed

theorem normalized_orientation_cases_witness:
  "normalized_orientation (spec_q1\<lparr>spec_orientation := None\<rparr>) = Inr (ascii ''positive'')
   \<and> normalized_orientation (spec_q1\<lparr>spec_orientation := Some (ascii '' Inverse '')\<rparr>)
       = Inr (ascii ''inverse'')
   \<and> normalized_orientation (spec_q1\<lparr>spec_orientation := Some (ascii ''negative'')\<rparr>)
       = Inl ValueError
   \<and> normalized_orientation (spec_q1\<lparr>spec_orientation := Some [0x20, 0x09]\<rparr>) = Inl ValueError"
  using normalized_orientation_cases [of "spec_q1\<lparr>spec_orientation := None\<rparr>"]
    normalized_orientation_cases [of "spec_q1\<lparr>spec_orientation := Some (ascii '' Inverse '')\<rparr>"]
    normalized_orientation_cases [of "spec_q1\<lparr>spec_orientation := Some (ascii ''negative'')\<rparr>"]
    normalized_orientation_cases [of "spec_q1\<lparr>spec_orientation := Some [0x20, 0x09]\<rparr>"]
  by (simp add: ascii_def py_strip_def py_lower_def lower_char_def is_space_def)

text \<open>
  C10 as stated fails: an orientation that is a single space is not replaced by the default;
  it is trimmed to the empty string, which is not a recognised value.
\<close>

theorem normalized_orientation_blank_counterexample:
  "normalized_orientation (spec_q1\<lparr>spec_orientation := Some (ascii '' '')\<rparr>) = Inl ValueError
   \<and> normalized_orientation (spec_q1\<lparr>spec_orientation := Some (ascii '' '')\<rparr>)
       \<noteq> Inr (ascii ''positive'')"
  by (simp add: normalized_orientation_def ascii_def py_strip_def py_lower_def lower_char_def
      is_space_def)

section \<open>The inverse clone\<close>

text \<open>
  C1 at a specification with two search queries. The clone made by \<open>build_inverse_spec\<close>
  has the derived identifier, the orientation \<open>inverse\<close> and the hint as its notes, and
  shares the other init fields, but its search-query list holds the first query only: the
  second query of the original is lost.
\<close>

theorem build_inverse_spec_two_queries:
  "build_inverse_spec
     (spec_q1\<lparr>spec_search_queries := [ascii ''alpha'', ascii ''beta'']\<rparr>) None INVERSE_NOTES_HINT
   = Some (Inr (spec_q1\<lparr>spec_query_id := ascii ''q1-inverse'',
                         spec_orientation := Some (ascii ''inverse''),
                         spec_notes := Some INVERSE_NOTES_HINT,
                         spec_search_queries := [ascii ''alpha'']\<rparr>, None))"
proof -
  have n: "ensure_inverse_notes None INVERSE_NOTES_HINT = INVERSE_NOTES_HINT"
    by (simp add: ensure_inverse_notes_def py_strip_def)
  have q: "normalize_search_queries (RawStr (ascii ''alpha'')) = [ascii ''alpha'']"
    by (simp add: normalize_search_queries_def push_parts_def push_def ascii_def
        is_splitter_char_def py_strip_def is_space_def)
  have o: "normalized_orientation s = Inr (ascii ''positive'')"
    if "spec_orientation s = Some (ascii ''positive'')" for s
    using that
    by (simp add: normalized_orientation_def ascii_def py_strip_def py_lower_def
        lower_char_def is_space_def)
  have i: "ascii ''q1'' @ ascii ''-inverse'' = ascii ''q1-inverse''"
    by (simp add: ascii_def)
  show ?thesis
    by (simp add: build_inverse_spec_def o n q i replace_spec_def QuerySpec_init_def
        set_search_queries_def search_query_def spec_q1_def Let_def)
qed

section \<open>Lists, sorting and positions\<close>






lemma filter_viable_Inr:
  "filter_viable url xs = Inr ys \<Longrightarrow>
   ys = filter (\<lambda>x. is_viable_ground_truth (url x) = Inr True) xs"
  by (induction xs arbitrary: ys) (auto split: sum.splits if_splits)

lemma collect_supporting_take:
  "collect_supporting ms p xs acc =
     acc @ take (if int (length acc) < ms then nat ms - length acc else 1) (others_viable p xs)"
proof (induction xs arbitrary: acc)
  case Nil
  then show ?case by (simp add: others_viable_def)
next
  case (Cons x xs)
  obtain i r where x: "x = (i, r)" by (cases x)
  show ?case
  proof (cases "i \<noteq> p \<and> is_viable_ground_truth (sr_url r) = Inr True")
    case False
    then have "others_viable p (x # xs) = others_viable p xs"
      by (auto simp: others_viable_def x)
    with False Cons show ?thesis by (auto simp: x)
  next
    case True
    then have o: "others_viable p ((i, r) # xs) = from_search_result r # others_viable p xs"
      by (simp add: others_viable_def)
    show ?thesis
    proof (cases "ms \<le> int (length acc) + 1")
      case True
      then have "int (length acc) < ms \<Longrightarrow> nat ms - length acc = Suc 0" by linarith
      with True \<open>i \<noteq> p \<and> _\<close> show ?thesis
        by (simp add: x o Let_def)
    next
      case False
      then have "nat ms - length acc = Suc (nat ms - Suc (length acc))" by linarith
      with False \<open>i \<noteq> p \<and> _\<close> Cons [of "acc @ [from_search_result r]"] show ?thesis
        by (simp add: x o Let_def)
    qed
  qed
qed

lemma py_slice_to_take: "\<exists>m. py_slice_to n xs = take m xs"
  by (auto simp: py_slice_to_def)

lemma refine_loop_Some:
  "refine_loop serper mk k ds = Inr (Some rv) \<Longrightarrow>
   \<exists>k' call refined. serper k' call = Inr refined \<and> filter_viable sr_url refined = Inr rv \<and> rv \<noteq> []"
proof (induction ds arbitrary: k)
  case Nil
  then show ?case by simp
next
  case (Cons d ds)
  then show ?case
    by (auto split: sum.splits if_splits)
qed

lemma enumerate_remove_index:
  "n \<le> p \<Longrightarrow> map snd (filter (\<lambda>x. fst x \<noteq> p) (enumerate n xs)) = take (p - n) xs @ drop (Suc (p - n)) xs"
proof (induction xs arbitrary: n)
  case Nil
  then show ?case by simp
next
  case (Cons x xs)
  show ?case
  proof (cases "p = n")
    case True
    have "\<forall>y \<in> set (enumerate (Suc n) xs). fst y \<noteq> n"
      by (auto simp: in_set_enumerate_eq)
    then have "filter (\<lambda>x. fst x \<noteq> n) (enumerate (Suc n) xs) = enumerate (Suc n) xs"
      by (simp add: filter_id_conv)
    with True show ?thesis by (simp add: map_snd_enumerate)
  next
    case False
    with Cons.prems have "Suc n \<le> p" by simp
    from Cons.IH [OF this] False Cons.prems show ?thesis
      by (simp add: Suc_diff_le take_Cons' drop_Cons') (metis Suc_diff_Suc Suc_le_lessD diff_Suc_Suc le_neq_implies_less)
  qed
qed

lemma others_viable_enumerate:
  "others_viable p (enumerate 0 results) =
     map from_search_result
       (filter (\<lambda>r. is_viable_ground_truth (sr_url r) = Inr True) (take p results @ drop (Suc p) results))"
proof -
  have "filter (\<lambda>x. fst x \<noteq> p \<and> is_viable_ground_truth (sr_url (snd x)) = Inr True) (enumerate 0 results)
        = filter (\<lambda>x. is_viable_ground_truth (sr_url (snd x)) = Inr True)
            (filter (\<lambda>x. fst x \<noteq> p) (enumerate 0 results))"
    by (simp add: conj_commute)
  then have "others_viable p (enumerate 0 results)
      = map from_search_result (filter (\<lambda>r. is_viable_ground_truth (sr_url r) = Inr True)
          (map snd (filter (\<lambda>x. fst x \<noteq> p) (enumerate 0 results))))"
    by (simp add: others_viable_def filter_map comp_def)
  then show ?thesis using enumerate_remove_index [of 0 p results] by simp
qed

lemma url_not_in_rest:
  assumes "distinct (map sr_url src)" "p < length src"
  shows "sr_url (src ! p) \<notin> sr_url ` set (take p src @ drop (Suc p) src)"
proof -
  have "src = take p src @ src ! p # drop (Suc p) src"
    using assms(2) by (simp add: id_take_nth_drop)
  then have "distinct (map sr_url (take p src @ src ! p # drop (Suc p) src))"
    using assms(1) by simp
  then show ?thesis by auto
qed

lemma hd_filter_position:
  "filter P xs \<noteq> [] \<Longrightarrow>
   \<exists>p < length xs. hd (filter P xs) = xs ! p \<and> tl (filter P xs) = filter P (drop (Suc p) xs)"
proof (induction xs)
  case Nil
  then show ?case by simp
next
  case (Cons x xs)
  show ?case
  proof (cases "P x")
    case True
    then have "hd (filter P (x # xs)) = (x # xs) ! 0 \<and> tl (filter P (x # xs)) = filter P (drop (Suc 0) (x # xs))"
      by simp
    then show ?thesis by blast
  next
    case False
    with Cons obtain p where "p < length xs" "hd (filter P xs) = xs ! p"
      "tl (filter P xs) = filter P (drop (Suc p) xs)" by auto
    with False have "Suc p < length (x # xs) \<and> hd (filter P (x # xs)) = (x # xs) ! Suc p
        \<and> tl (filter P (x # xs)) = filter P (drop (Suc (Suc p)) (x # xs))" by simp
    then show ?thesis by blast
  qed
qed

lemma subseq_set_subset: "subseq xs ys \<Longrightarrow> set xs \<subseteq> set ys"
  by (induction rule: list_emb.induct) auto

lemma subseq_take: "subseq (take n xs) xs"
  by (metis append_take_drop_id list_emb_prefix subseq_order.order_refl)

lemma gs_url_from [simp]: "gs_url (from_search_result r) = sr_url r"
  by (simp add: from_search_result_def)

lemma finish_properties:
  fixes ms :: int
  assumes p: "p < length results" and d: "distinct (map sr_url results)"
  defines "supp \<equiv> collect_supporting ms p (enumerate 0 results) []"
  shows "sr_url (results ! p) \<notin> set (map gs_url supp)"
    and "subseq supp (map from_search_result (take p results @ drop (Suc p) results))"
proof -
  define rest where "rest = take p results @ drop (Suc p) results"
  define V where "V = (\<lambda>r :: SearchResult. is_viable_ground_truth (sr_url r) = Inr True)"
  obtain n where supp: "supp = take n (map from_search_result (filter V rest))"
    unfolding supp_def rest_def V_def
    by (simp add: collect_supporting_take others_viable_enumerate)
  have "subseq (take n (map from_search_result (filter V rest))) (map from_search_result (filter V rest))"
    by (rule subseq_take)
  moreover have "subseq (map from_search_result (filter V rest)) (map from_search_result rest)"
    by (simp add: subseq_map)
  ultimately show "subseq supp (map from_search_result (take p results @ drop (Suc p) results))"
    unfolding supp rest_def [symmetric] by (rule subseq_order.order_trans)
  have "set supp \<subseteq> from_search_result ` set rest"
    unfolding supp using set_take_subset [of n "map from_search_result (filter V rest)"] by auto
  then have "set (map gs_url supp) \<subseteq> sr_url ` set rest" by auto
  moreover have "sr_url (results ! p) \<notin> sr_url ` set rest"
    unfolding rest_def using url_not_in_rest [OF d p] .
  ultimately show "sr_url (results ! p) \<notin> set (map gs_url supp)" by blast
qed

section \<open>Selection of the primary\<close>


lemma hit_pdf_viable: "is_viable_ground_truth (sr_url hit_pdf) = Inr True"
  by code_simp

lemma hit_html_viable: "is_viable_ground_truth (sr_url hit_html) = Inr True"
  by code_simp

lemma hit_pdf_score: "primary_score (sr_url hit_pdf) = (0, 41)"
  by code_simp



section \<open>The supporting list\<close>

text \<open>
  C5, as amended. Let the selector return a bundle, let the candidates have pairwise
  distinct URLs, and let every answer of the search backend have pairwise distinct URLs.
  Then the URL of the primary is not among the URLs of the supporting list. Moreover the
  primary is the entry at some position \<open>p\<close> of a list \<open>src\<close>, which is the candidate
  list or, on the domain-refinement path, an answer of the backend, and the supporting
  list is a subsequence of \<open>src\<close> without the entry at \<open>p\<close>: it keeps the discovery
  order of the list it is drawn from. The primary is excluded by its position, not by
  its URL.
\<close>

theorem bundle_supporting_excludes_primary:
  assumes sel: "select_ground_truth_bundle probe serper spec results endpoint market lang ms = Inr b"
    and dres: "distinct (map sr_url results)"
    and dser: "\<forall>k call rs. serper k call = Inr rs \<longrightarrow> distinct (map sr_url rs)"
  shows "gs_url (gb_primary b) \<notin> set (map gs_url (gb_supporting b)) \<and>
         (\<exists>src p. (src = results \<or> (\<exists>k call. serper k call = Inr src)) \<and> p < length src \<and>
            gb_primary b = from_search_result (src ! p) \<and>
            subseq (gb_supporting b) (map from_search_result (take p src @ drop (Suc p) src)))"
proof -
  define Q where "Q = (\<lambda>(i :: nat, r :: SearchResult). is_downloadable probe (sr_url r))"
  define f where "f = (\<lambda>(i :: nat, r :: SearchResult). primary_score (sr_url r))"
  define finish where "finish = (\<lambda>p. \<lparr>gb_primary = from_search_result (results ! p),
      gb_supporting = collect_supporting ms p (enumerate 0 results) []\<rparr>)"
  define mk where "mk = (\<lambda>domain. \<lparr>sc_query = ascii ''site:'' @ domain @ ascii '' '' @ search_query spec,
      sc_endpoint = endpoint, sc_market = market, sc_language = lang, sc_num = 5\<rparr>)"
  define doms where "doms = concat (map (\<lambda>res. extract_domains (sr_snippet res)) results)"
  from sel have ne: "results \<noteq> []"
    by (auto simp: select_ground_truth_bundle_def)
  from sel ne obtain viable where fv: "filter_viable (sr_url \<circ> snd) (enumerate 0 results) = Inr viable"
    by (auto simp: select_ground_truth_bundle_def split: sum.splits)
  define ordered where "ordered = (if filter Q (sort_key f viable) \<noteq> [] then filter Q (sort_key f viable)
      else sort_key f viable)"
  have sel': "(case ordered of
                 (p, primary) # _ \<Rightarrow> Inr (finish p)
               | [] \<Rightarrow> (case refine_loop serper mk 0 doms of
                     Inl e \<Rightarrow> Inl e
                   | Inr (Some rv) \<Rightarrow> Inr \<lparr>gb_primary = from_search_result (hd rv),
                         gb_supporting = map from_search_result (py_slice_to ms (tl rv))\<rparr>
                   | Inr None \<Rightarrow> Inr (finish 0))) = Inr b"
    using sel ne fv
    unfolding select_ground_truth_bundle_def Let_def ordered_def Q_def f_def finish_def mk_def doms_def
    by simp
  have fin: "gs_url (gb_primary (finish p)) \<notin> set (map gs_url (gb_supporting (finish p))) \<and>
      (\<exists>src q. (src = results \<or> (\<exists>k call. serper k call = Inr src)) \<and> q < length src \<and>
            gb_primary (finish p) = from_search_result (src ! q) \<and>
            subseq (gb_supporting (finish p)) (map from_search_result (take q src @ drop (Suc q) src)))"
    if "p < length results" for p
    using finish_properties [OF that dres, of ms] that unfolding finish_def by auto
  show ?thesis
  proof (cases ordered)
    case (Cons x t)
    obtain p pr where x: "x = (p, pr)" by (cases x)
    have "x \<in> set ordered" using Cons by simp
    then have "x \<in> set viable" unfolding ordered_def by (auto split: if_splits)
    then have "x \<in> set (enumerate 0 results)"
      using filter_viable_Inr [OF fv] by simp
    then have "p < length results" by (simp add: x in_set_enumerate_eq)
    moreover have "b = finish p" using sel' Cons x by simp
    ultimately show ?thesis using fin by blast
  next
    case Nil
    show ?thesis
    proof (cases "refine_loop serper mk 0 doms")
      case (Inl e)
      with sel' Nil show ?thesis by simp
    next
      case (Inr opt)
      show ?thesis
      proof (cases opt)
        case None
        with sel' Nil Inr have "b = finish 0" by simp
        moreover have "0 < length results" using ne by simp
        ultimately show ?thesis using fin by blast
      next
        case (Some rv)
        with sel' Nil Inr have b: "b = \<lparr>gb_primary = from_search_result (hd rv),
            gb_supporting = map from_search_result (py_slice_to ms (tl rv))\<rparr>" by simp
        from refine_loop_Some [OF Inr [unfolded Some]] obtain k call refined where
          r: "serper k call = Inr refined" "filter_viable sr_url refined = Inr rv" "rv \<noteq> []" by blast
        define V where "V = (\<lambda>r :: SearchResult. is_viable_ground_truth (sr_url r) = Inr True)"
        have rv: "rv = filter V refined" using filter_viable_Inr [OF r(2)] by (simp add: V_def)
        from hd_filter_position [of V refined] r(3) rv obtain p where
          p: "p < length refined" "hd rv = refined ! p" "tl rv = filter V (drop (Suc p) refined)" by auto
        obtain m where m: "py_slice_to ms (tl rv) = take m (tl rv)"
          using py_slice_to_take by blast
        have d: "distinct (map sr_url refined)" using dser r(1) by blast
        define rest where "rest = take p refined @ drop (Suc p) refined"
        have s1: "subseq (take m (tl rv)) (tl rv)"
          by (rule subseq_take)
        have s2: "subseq (tl rv) (drop (Suc p) refined)" unfolding p(3) by simp
        have s3: "subseq (drop (Suc p) refined) rest" unfolding rest_def
          by (simp add: list_emb_append2)
        have s: "subseq (take m (tl rv)) rest"
          using s1 s2 s3 subseq_order.order_trans by blast
        then have sub: "subseq (gb_supporting b) (map from_search_result rest)"
          unfolding b by (simp add: m subseq_map)
        have "set (take m (tl rv)) \<subseteq> set rest" using s by (rule subseq_set_subset)
        then have "set (map gs_url (gb_supporting b)) \<subseteq> sr_url ` set rest"
          unfolding b by (auto simp: m)
        moreover have "sr_url (refined ! p) \<notin> sr_url ` set rest"
          unfolding rest_def using url_not_in_rest [OF d p(1)] .
        ultimately have "gs_url (gb_primary b) \<notin> set (map gs_url (gb_supporting b))"
          unfolding b using p(2) by auto
        moreover have "gb_primary b = from_search_result (refined ! p)" unfolding b using p(2) by simp
        ultimately show ?thesis using r(1) p(1) sub unfolding rest_def by blast
      qed
    qed
  qed
qed

lemma hit_logo_not_viable: "is_viable_ground_truth (sr_url hit_logo) = Inr False"
  by code_simp

lemma hit_logo_domains: "extract_domains (sr_snippet hit_logo) = [ascii ''www.gov.cn'']"
  by code_simp

lemma hit_urls_differ: "sr_url hit_html \<noteq> sr_url hit_pdf"
  by (simp add: hit_html_def hit_pdf_def ascii_def)

text \<open>
  The domain-refinement path: the only candidate is not viable, its snippet names a
  domain, and the search scoped to that domain returns the two hits of scenario A.
\<close>

theorem bundle_supporting_excludes_primary_witness:
  "select_ground_truth_bundle (\<lambda>_. True) mirror_backend spec_q1 [hit_logo] [] [] [] 3
     = Inr \<lparr>gb_primary = from_search_result hit_html, gb_supporting = [from_search_result hit_pdf]\<rparr>
   \<and> distinct (map sr_url [hit_logo])
   \<and> distinct (map sr_url [hit_html, hit_pdf])
   \<and> gs_url (from_search_result hit_html) \<notin> set (map gs_url [from_search_result hit_pdf])
   \<and> (\<exists>src p. (src = [hit_logo] \<or> (\<exists>k call. mirror_backend k call = Inr src)) \<and> p < length src \<and>
          from_search_result hit_html = from_search_result (src ! p) \<and>
          subseq [from_search_result hit_pdf] (map from_search_result (take p src @ drop (Suc p) src)))"
proof -
  have ev: "select_ground_truth_bundle (\<lambda>_. True) mirror_backend spec_q1 [hit_logo] [] [] [] 3
     = Inr \<lparr>gb_primary = from_search_result hit_html, gb_supporting = [from_search_result hit_pdf]\<rparr>"
    by (simp add: select_ground_truth_bundle_def hit_logo_not_viable hit_logo_domains
        hit_pdf_viable hit_html_viable mirror_backend_def py_slice_to_def Let_def)
  have d1: "distinct (map sr_url [hit_logo])" by simp
  have d2: "\<forall>k call rs. mirror_backend k call = Inr rs \<longrightarrow> distinct (map sr_url rs)"
    using hit_urls_differ by (auto simp: mirror_backend_def)
  show ?thesis
    using ev d1 hit_urls_differ bundle_supporting_excludes_primary [OF ev d1 d2] by simp
qed

text \<open>
  C5 as stated fails on two distinct entries with the same URL: the first is the primary
  and the second, which is another entry, is a supporting source with the primary's URL.
\<close>

theorem supporting_shares_primary_url_counterexample:
  "select_ground_truth_bundle (\<lambda>_. True) failing_backend spec_q1 [hit_pdf, hit_pdf_copy] [] [] [] 3
     = Inr \<lparr>gb_primary = from_search_result hit_pdf,
             gb_supporting = [from_search_result hit_pdf_copy]\<rparr>
   \<and> hit_pdf \<noteq> hit_pdf_copy
   \<and> gs_url (from_search_result hit_pdf) \<in> set (map gs_url [from_search_result hit_pdf_copy])"
proof -
  have u: "sr_url hit_pdf_copy = sr_url hit_pdf" by (simp add: hit_pdf_copy_def)
  have t: "hit_pdf \<noteq> hit_pdf_copy"
    by (simp add: hit_pdf_copy_def hit_pdf_def ascii_def)
  have "select_ground_truth_bundle (\<lambda>_. True) failing_backend spec_q1 [hit_pdf, hit_pdf_copy] [] [] [] 3
     = Inr \<lparr>gb_primary = from_search_result hit_pdf,
             gb_supporting = [from_search_result hit_pdf_copy]\<rparr>"
    by (simp add: select_ground_truth_bundle_def u hit_pdf_viable hit_pdf_score
        is_downloadable_def Let_def)
  then show ?thesis using u t by (simp add: from_search_result_def)
qed

section \<open>The evidence search\<close>





lemma trace_hits_append [simp]: "trace_hits (a @ b) = trace_hits a @ trace_hits b"
  by (simp add: trace_hits_def)


lemma trace_hits_single [simp]: "trace_hits [(c, Inr rs)] = rs"
  by (simp add: trace_hits_def)













section \<open>The shared search cache\<close>

















section \<open>Failure isolation\<close>

text \<open>In the parallel branch every outcome is a returned list.\<close>

lemma generate_batch_parallel_returns:
  assumes "generate_batch search build package package_dir agent max_workers env_workers specs out"
    and "resolve_workers max_workers env_workers \<noteq> 1" and "1 < length specs"
  shows "\<exists>payloads. out = Inr payloads"
  using assms by (auto simp: generate_batch_def Let_def)

text \<open>
  C4 at a batch of two specifications with worker bound 1 and a package directory, where
  the packaging of the first payload raises an exception that is neither a search nor a
  generation error. The sequential loop has no handler: the exception leaves
  \<open>generate_batch\<close>, and the second specification is not processed.
\<close>

theorem sequential_batch_aborts:
  "generate_batch demo_search demo_build package_fails_first (Some (ascii ''out'')) agent_demo
     (Some 1) Unset [spec_q1, spec_q2] out
   \<longleftrightarrow> out = Inl OtherError"
  by (simp add: generate_batch_def resolve_workers_def process_spec_def cached_search_def
      initial_state_def demo_search_def demo_build_def package_fails_first_def Let_def)

end
